theory Spec2Isabelle
  imports Main "HOL-Library.Char_ord"
begin

section \<open>JavaScript values\<close>

text \<open>
  The plugin receives its configuration from a JSON-like options object, and the
  validator inspects the run-time shape of every field (\<^verbatim>\<open>isString\<close>, \<^verbatim>\<open>isArray\<close>,
  \<^verbatim>\<open>isBoolean\<close>), so configuration values are modelled as untyped JavaScript values.
  The code looks at a number only for its type and its truthiness, so integers stand for
  the numbers; an object is the list of its properties, each name occurring once.
\<close>

datatype jsval =
    JUndefined
  | JNull
  | JBool bool
  | JNum int
  | JStr string
  | JArr "jsval list"
  | JObj "(string \<times> jsval) list"

text \<open>JavaScript truthiness, as tested by \<^verbatim>\<open>if (v)\<close>.\<close>

fun truthy :: "jsval \<Rightarrow> bool" where
  "truthy JUndefined = False"
| "truthy JNull = False"
| "truthy (JBool b) = b"
| "truthy (JNum n) = (n \<noteq> 0)"
| "truthy (JStr s) = (s \<noteq> [])"
| "truthy (JArr xs) = True"
| "truthy (JObj kvs) = True"

text \<open>The nullish coalescing operator \<^verbatim>\<open>a ?? b\<close>.\<close>

definition nullish :: "jsval \<Rightarrow> jsval \<Rightarrow> jsval" where
  "nullish a b = (if a = JUndefined \<or> a = JNull then b else a)"

text \<open>
  The environment is an optional \<^verbatim>\<open>Record<string, string>\<close>; \<^verbatim>\<open>env?.NAME\<close> is
  \<^verbatim>\<open>undefined\<close> when the record or the key is missing.
\<close>

type_synonym Env = "(string \<rightharpoonup> string) option"

definition env_get :: "Env \<Rightarrow> string \<Rightarrow> jsval" where
  "env_get env name =
     (case env of
        None \<Rightarrow> JUndefined
      | Some m \<Rightarrow> (case m name of None \<Rightarrow> JUndefined | Some s \<Rightarrow> JStr s))"

section \<open>Configuration model (lib/models/config.ts)\<close>

datatype Platform = BITBUCKET | BITBUCKET_CLOUD | GITEA | GITHUB | GITLAB | NULL

fun platform_string :: "Platform \<Rightarrow> string" where
  "platform_string BITBUCKET = ''bitbucket''"
| "platform_string BITBUCKET_CLOUD = ''bitbucket-cloud''"
| "platform_string GITEA = ''gitea''"
| "platform_string GITHUB = ''github''"
| "platform_string GITLAB = ''gitlab''"
| "platform_string NULL = ''''"

text \<open>\<^verbatim>\<open>Object.values(Platform)\<close>, in declaration order.\<close>

definition Platform_values :: "Platform list" where
  "Platform_values = [BITBUCKET, BITBUCKET_CLOUD, GITEA, GITHUB, GITLAB, NULL]"

text \<open>
  \<^verbatim>\<open>keyof RequestsConfig\<close>. A configuration object as the resolver reads it at run time:
  the value of each property, an arbitrary JavaScript value, \<^verbatim>\<open>undefined\<close> for a property
  that the object does not have.
\<close>

datatype ConfigKey =
    K_apiPathPrefix | K_assets | K_baseUrl | K_candidates | K_commit | K_debug
  | K_dryRun | K_platform | K_repositoryUrl | K_title | K_token

fun key_name :: "ConfigKey \<Rightarrow> string" where
  "key_name K_apiPathPrefix = ''apiPathPrefix''"
| "key_name K_assets = ''assets''"
| "key_name K_baseUrl = ''baseUrl''"
| "key_name K_candidates = ''candidates''"
| "key_name K_commit = ''commit''"
| "key_name K_debug = ''debug''"
| "key_name K_dryRun = ''dryRun''"
| "key_name K_platform = ''platform''"
| "key_name K_repositoryUrl = ''repositoryUrl''"
| "key_name K_title = ''title''"
| "key_name K_token = ''token''"

type_synonym JsConfig = "ConfigKey \<Rightarrow> jsval"

definition defaultTitle :: string where
  "defaultTitle = ''Release candidate branch ${ from }''"

definition defaultCommit :: string where
  "defaultCommit = ''chore(release): release changes for v${ nextRelease.version } [skip ci]''"

section \<open>Configuration defaulting (lib/verify-config.ts, ensureDefault)\<close>

text \<open>The inner function \<^verbatim>\<open>getURLs\<close>: inferred platform, base URL, API path prefix.\<close>

definition getURLs :: "JsConfig \<Rightarrow> Env \<Rightarrow> Platform \<times> jsval \<times> jsval" where
  "getURLs config env =
    (if truthy (config K_baseUrl) then
       (NULL, config K_baseUrl, nullish (config K_apiPathPrefix) (JStr ''''))
     else if truthy (env_get env ''BITBUCKET_URL'') then
       (BITBUCKET, env_get env ''BITBUCKET_URL'',
        nullish (config K_apiPathPrefix) (JStr ''/rest/api/1.0''))
     else if truthy (env_get env ''BITBUCKET_CLOUD_URL'') then
       (BITBUCKET_CLOUD, env_get env ''BITBUCKET_CLOUD_URL'',
        nullish (config K_apiPathPrefix) (JStr ''/2.0''))
     else if truthy (env_get env ''GITEA_URL'') then
       (GITEA, env_get env ''GITEA_URL'',
        nullish (config K_apiPathPrefix) (JStr ''/api/v1''))
     else
       let githubUrl = nullish (nullish (env_get env ''GH_URL'') (env_get env ''GITHUB_URL''))
                         (env_get env ''GITHUB_API_URL'')
       in if truthy githubUrl then
            (GITHUB, githubUrl, nullish (config K_apiPathPrefix) (JStr ''''))
          else
            let gitlabUrl = nullish (nullish (env_get env ''GL_URL'') (env_get env ''GITLAB_URL''))
                              (env_get env ''CI_SERVER_URL'')
            in if truthy gitlabUrl then
                 (GITLAB, gitlabUrl, nullish (config K_apiPathPrefix) (JStr ''/api/v4''))
               else (NULL, JStr '''', JStr ''''))"

definition token_from_env :: "Env \<Rightarrow> jsval" where
  "token_from_env env =
     nullish (nullish (nullish (nullish (nullish (nullish (nullish
       (env_get env ''BB_TOKEN'')
       (env_get env ''BITBUCKET_TOKEN''))
       (env_get env ''GITEA_TOKEN''))
       (env_get env ''GH_TOKEN''))
       (env_get env ''GITHUB_TOKEN''))
       (env_get env ''GL_TOKEN''))
       (env_get env ''GITLAB_TOKEN''))
       (JStr '''')"

definition ensureDefault :: "JsConfig \<Rightarrow> Env \<Rightarrow> JsConfig" where
  "ensureDefault config env =
     (case getURLs config env of
        (platform, baseUrl, apiPathPrefix) \<Rightarrow>
          (\<lambda>k. case k of
             K_apiPathPrefix \<Rightarrow> apiPathPrefix
           | K_assets \<Rightarrow> nullish (config K_assets) (JArr [])
           | K_baseUrl \<Rightarrow> baseUrl
           | K_candidates \<Rightarrow> nullish (config K_candidates) (JArr [])
           | K_commit \<Rightarrow> nullish (config K_commit) (JStr defaultCommit)
           | K_debug \<Rightarrow> nullish (config K_debug) (JBool False)
           | K_dryRun \<Rightarrow> nullish (config K_dryRun) (JBool False)
           | K_platform \<Rightarrow> nullish (config K_platform) (JStr (platform_string platform))
           | K_repositoryUrl \<Rightarrow> nullish (config K_repositoryUrl) (JStr '''')
           | K_title \<Rightarrow> nullish (config K_title) (JStr defaultTitle)
           | K_token \<Rightarrow> token_from_env env))"

text \<open>The empty options object \<^verbatim>\<open>{}\<close>.\<close>

definition empty_config :: JsConfig where
  "empty_config = (\<lambda>k. JUndefined)"

section \<open>Errors (lib/error.ts)\<close>

text \<open>
  Thrown values: a plain JavaScript error (name and message), a
  \<^verbatim>\<open>SemanticReleaseError(message, code, details)\<close>, or an \<^verbatim>\<open>AggregateError\<close> of the
  aggregate-error package wrapping a list of errors. A function that may throw returns
  \<open>error + 'a\<close>, with \<open>Inl\<close> the thrown value.
\<close>

datatype error =
    JsError string string
  | SemanticReleaseError string string "string option"
  | AggregateError "error list"

text \<open>\<^verbatim>\<open>String.prototype.toUpperCase\<close> on the ASCII letters the configuration keys use.\<close>

definition upper_char :: "char \<Rightarrow> char" where
  "upper_char c =
     (if CHR ''a'' \<le> c \<and> c \<le> CHR ''z'' then char_of (of_char c - (32::nat)) else c)"

definition toUpperCase :: "string \<Rightarrow> string" where
  "toUpperCase s = map upper_char s"

definition linkify :: "string \<Rightarrow> string" where
  "linkify section_name =
     ''https://github.com/kilianpaquier/semantic-release-requests/blob/master/README.md#''
       @ section_name"

record ConfigError =
  message :: string
  details :: "string option"

text \<open>
  The table \<^verbatim>\<open>configErrors\<close>. The text that \<^verbatim>\<open>JSON.stringify(value)\<close> interpolates is
  computed by the JavaScript run time; it is the first parameter.
\<close>

fun configErrors :: "(jsval \<Rightarrow> string) \<Rightarrow> ConfigKey \<Rightarrow> jsval \<Rightarrow> ConfigError" where
  "configErrors stringify K_apiPathPrefix v =
     \<lparr>message = ''Invalid 'apiPathPrefix' configuration.'',
      details = Some (''[API Path Prefix]('' @ linkify ''configuration''
        @ '') must be a string. Provided value is '' @ stringify v @ ''.'')\<rparr>"
| "configErrors stringify K_assets v =
     \<lparr>message = ''Invalid 'assets' configuration.'',
      details = Some (''[Assets]('' @ linkify ''configuration''
        @ '') must be a valid list of strings. Provided value is '' @ stringify v @ ''.'')\<rparr>"
| "configErrors stringify K_baseUrl v =
     \<lparr>message = ''Invalid 'baseUrl' configuration.'',
      details = Some (''[Base URL]('' @ linkify ''configuration''
        @ '') must be a non empty string. Provided value is '' @ stringify v @ ''.'')\<rparr>"
| "configErrors stringify K_candidates v =
     \<lparr>message = ''Invalid 'candidates' configuration.'',
      details = Some (''[Candidates]('' @ linkify ''configuration''
        @ '') must be a valid array of release candidates ({ from: \"...\", to: \"...\" }). Provided value is ''
        @ stringify v @ ''.'')\<rparr>"
| "configErrors stringify K_commit v =
     \<lparr>message = ''Invalid 'commit' configuration.'',
      details = Some (''[Commit]('' @ linkify ''configuration''
        @ '') must be a string. Provided value is '' @ stringify v @ ''.'')\<rparr>"
| "configErrors stringify K_debug v =
     \<lparr>message = ''Invalid 'debug' configuration (coming from semantic-release options).'',
      details = None\<rparr>"
| "configErrors stringify K_dryRun v =
     \<lparr>message = ''Invalid 'dryRun' configuration (coming from semantic-release options).'',
      details = None\<rparr>"
| "configErrors stringify K_platform v =
     \<lparr>message = ''Invalid 'platform' configuration.'',
      details = Some (''[Platform]('' @ linkify ''configuration''
        @ '') must be one of 'bitbucket', 'bitbucket-cloud', 'gitea', 'github', 'gitlab'. Provided value is ''
        @ stringify v @ ''.'')\<rparr>"
| "configErrors stringify K_repositoryUrl v =
     \<lparr>message = ''Invalid 'repositoryUrl' configuration (coming from semantic-release options).'',
      details = None\<rparr>"
| "configErrors stringify K_title v =
     \<lparr>message = ''Invalid 'title' configuration.'',
      details = Some (''[Title]('' @ linkify ''configuration''
        @ '') must be a non empty string. Provided value is '' @ stringify v @ ''.'')\<rparr>"
| "configErrors stringify K_token v =
     \<lparr>message = ''Invalid 'token' configuration.'',
      details = Some (''[Token]('' @ linkify ''configuration'' @ '') must be a non empty string.'')\<rparr>"

definition getConfigError :: "(jsval \<Rightarrow> string) \<Rightarrow> ConfigKey \<Rightarrow> jsval \<Rightarrow> error" where
  "getConfigError stringify key v =
     (let code = ''EINVALID'' @ toUpperCase (key_name key);
          error = configErrors stringify key v
      in SemanticReleaseError (message error) code (details error))"

section \<open>Configuration validation (lib/verify-config.ts, verifyConfig)\<close>

text \<open>The lodash predicates \<^verbatim>\<open>isString\<close>, \<^verbatim>\<open>isArray\<close>, \<^verbatim>\<open>isBoolean\<close>.\<close>

fun isString :: "jsval \<Rightarrow> bool" where
  "isString (JStr s) = True"
| "isString v = False"

fun isArray :: "jsval \<Rightarrow> bool" where
  "isArray (JArr xs) = True"
| "isArray v = False"

fun isBoolean :: "jsval \<Rightarrow> bool" where
  "isBoolean (JBool b) = True"
| "isBoolean v = False"

definition stringNotEmpty :: "jsval \<Rightarrow> bool" where
  "stringNotEmpty v = (v \<noteq> JStr '''')"

text \<open>
  Property access \<^verbatim>\<open>v.name\<close>: a \<^verbatim>\<open>TypeError\<close> on \<^verbatim>\<open>null\<close> and \<^verbatim>\<open>undefined\<close>, the
  stored value on an object that has the property, \<^verbatim>\<open>undefined\<close> otherwise (no other
  value has an own or inherited property named \<^verbatim>\<open>from\<close> or \<^verbatim>\<open>to\<close>). The text of the
  error message is the one of V8.
\<close>

fun js_get :: "jsval \<Rightarrow> string \<Rightarrow> error + jsval" where
  "js_get JUndefined name =
     Inl (JsError ''TypeError''
            (''Cannot read properties of undefined (reading '' @ [CHR 0x27] @ name @ [CHR 0x27]
             @ '')''))"
| "js_get JNull name =
     Inl (JsError ''TypeError''
            (''Cannot read properties of null (reading '' @ [CHR 0x27] @ name @ [CHR 0x27]
             @ '')''))"
| "js_get (JObj kvs) name = (case map_of kvs name of None \<Rightarrow> Inr JUndefined | Some v \<Rightarrow> Inr v)"
| "js_get v name = Inr JUndefined"

text \<open>\<^verbatim>\<open>Array.prototype.filter\<close> with a callback that may throw.\<close>

fun filterE :: "('a \<Rightarrow> error + bool) \<Rightarrow> 'a list \<Rightarrow> error + 'a list" where
  "filterE p [] = Inr []"
| "filterE p (x # xs) =
     (case p x of
        Inl e \<Rightarrow> Inl e
      | Inr b \<Rightarrow>
          (case filterE p xs of
             Inl e \<Rightarrow> Inl e
           | Inr ys \<Rightarrow> Inr (if b then x # ys else ys)))"

text \<open>The callback of \<^verbatim>\<open>validCandidatesArray\<close>; \<^verbatim>\<open>&&\<close> evaluates left to right.\<close>

definition validCandidate :: "jsval \<Rightarrow> error + bool" where
  "validCandidate target =
     (case js_get target ''from'' of
        Inl e \<Rightarrow> Inl e
      | Inr f \<Rightarrow>
          if isString f \<and> stringNotEmpty f then
            (case js_get target ''to'' of
               Inl e \<Rightarrow> Inl e
             | Inr t \<Rightarrow> Inr (isString t \<and> stringNotEmpty t))
          else Inr False)"

text \<open>
  Calling \<^verbatim>\<open>.filter\<close> on a value that is not an array throws; the validation loop only
  reaches these two validators after \<^verbatim>\<open>isArray\<close> has passed.
\<close>

definition not_an_array :: error where
  "not_an_array = JsError ''TypeError'' ''filter is not a function''"

fun validCandidatesArray :: "jsval \<Rightarrow> error + bool" where
  "validCandidatesArray (JArr candidates) =
     (case filterE validCandidate candidates of
        Inl e \<Rightarrow> Inl e
      | Inr kept \<Rightarrow> Inr (length kept = length candidates))"
| "validCandidatesArray v = Inl not_an_array"

fun validStringArray :: "jsval \<Rightarrow> error + bool" where
  "validStringArray (JArr array) =
     Inr (length (filter (\<lambda>str. isString str \<and> stringNotEmpty str) array) = length array)"
| "validStringArray v = Inl not_an_array"

definition validPlatform :: "jsval \<Rightarrow> bool" where
  "validPlatform stringPlatform =
     truthy (case find (\<lambda>platform. JStr (platform_string platform) = stringPlatform)
                    (filter (\<lambda>platform. platform \<noteq> NULL) Platform_values) of
               None \<Rightarrow> JUndefined
             | Some platform \<Rightarrow> JStr (platform_string platform))"

text \<open>The table \<^verbatim>\<open>validators\<close>.\<close>

fun validators :: "ConfigKey \<Rightarrow> (jsval \<Rightarrow> error + bool) list" where
  "validators K_apiPathPrefix = [\<lambda>v. Inr (isString v)]"
| "validators K_assets = [\<lambda>v. Inr (isArray v), validStringArray]"
| "validators K_baseUrl = [\<lambda>v. Inr (isString v), \<lambda>v. Inr (stringNotEmpty v)]"
| "validators K_candidates = [\<lambda>v. Inr (isArray v), validCandidatesArray]"
| "validators K_commit = [\<lambda>v. Inr (isString v), \<lambda>v. Inr (stringNotEmpty v)]"
| "validators K_debug = [\<lambda>v. Inr (isBoolean v)]"
| "validators K_dryRun = [\<lambda>v. Inr (isBoolean v)]"
| "validators K_platform = [\<lambda>v. Inr (isString v), \<lambda>v. Inr (validPlatform v)]"
| "validators K_repositoryUrl = [\<lambda>v. Inr (isString v), \<lambda>v. Inr (stringNotEmpty v)]"
| "validators K_title = [\<lambda>v. Inr (isString v), \<lambda>v. Inr (stringNotEmpty v)]"
| "validators K_token = [\<lambda>v. Inr (isString v), \<lambda>v. Inr (stringNotEmpty v)]"

text \<open>
  The inner \<^verbatim>\<open>for\<close> loop of the reducer: \<open>Inr False\<close> as soon as one validation
  rejects the value, \<open>Inr True\<close> when all accept it.
\<close>

fun passes :: "(jsval \<Rightarrow> error + bool) list \<Rightarrow> jsval \<Rightarrow> error + bool" where
  "passes [] v = Inr True"
| "passes (validation # rest) v =
     (case validation v of
        Inl e \<Rightarrow> Inl e
      | Inr ok \<Rightarrow> if \<not> ok then Inr False else passes rest v)"

text \<open>
  \<^verbatim>\<open>keyof RequestsConfig\<close>: the keys of the tables \<^verbatim>\<open>validators\<close> and \<^verbatim>\<open>configErrors\<close>.
\<close>

definition RequestsConfig_keys :: "ConfigKey list" where
  "RequestsConfig_keys = [K_apiPathPrefix, K_assets, K_baseUrl, K_candidates, K_commit, K_debug,
                          K_dryRun, K_platform, K_repositoryUrl, K_title, K_token]"

text \<open>
  An object as \<^verbatim>\<open>Object.entries\<close> lists it: its own properties, name and value, in the
  order of the object.
\<close>

type_synonym JsObject = "(string \<times> jsval) list"

text \<open>
  The lookup \<^verbatim>\<open>validators[option]\<close>. Under a name that is not a key of the table there
  is no list of validators, and the \<^verbatim>\<open>for ... of\<close> over what is found throws.
\<close>

definition key_of :: "string \<Rightarrow> ConfigKey option" where
  "key_of option = find (\<lambda>key. key_name key = option) RequestsConfig_keys"

definition not_iterable :: error where
  "not_iterable = JsError ''TypeError'' ''validators[option] is not iterable''"

text \<open>
  The \<^verbatim>\<open>reduce\<close> over \<^verbatim>\<open>Object.entries(config)\<close>, with the accumulator \<open>agg\<close>: only the
  properties that the object has are validated, in the order of the object.
\<close>

fun collect_errors ::
  "(jsval \<Rightarrow> string) \<Rightarrow> JsObject \<Rightarrow> error list \<Rightarrow> error + error list" where
  "collect_errors stringify [] agg = Inr agg"
| "collect_errors stringify ((option, v) # rest) agg =
     (case key_of option of
        None \<Rightarrow> Inl not_iterable
      | Some key \<Rightarrow>
          (case passes (validators key) v of
             Inl e \<Rightarrow> Inl e
           | Inr ok \<Rightarrow>
               if \<not> ok then
                 collect_errors stringify rest (agg @ [getConfigError stringify key v])
               else collect_errors stringify rest agg))"

definition verifyConfig :: "(jsval \<Rightarrow> string) \<Rightarrow> JsObject \<Rightarrow> error + unit" where
  "verifyConfig stringify config =
     (case collect_errors stringify config [] of
        Inl e \<Rightarrow> Inl e
      | Inr errors \<Rightarrow> if length errors > 0 then Inl (AggregateError errors) else Inr ())"

text \<open>
  The object that \<^verbatim>\<open>ensureDefault\<close> returns is a literal with the eleven properties,
  written in this order; these are its entries.
\<close>

definition Object_entries :: "JsConfig \<Rightarrow> JsObject" where
  "Object_entries config = map (\<lambda>key. (key_name key, config key)) RequestsConfig_keys"

section \<open>Typed configuration and context (lib/models/config.ts, lib/requests.ts)\<close>

record ReleaseCandidate =
  cand_from :: string
  cand_to :: string

text \<open>
  \<^verbatim>\<open>RequestsConfig\<close> as the TypeScript interface declares it; the orchestration
  functions read its fields at these types.
\<close>

record RequestsConfig =
  debug :: bool
  dryRun :: bool
  repositoryUrl :: string
  apiPathPrefix :: string
  baseUrl :: string
  platform :: Platform
  token :: string
  candidates :: "ReleaseCandidate list"
  title :: string
  commit :: string
  assets :: "string list"

text \<open>The fields of a semantic-release release object that the plugin reads.\<close>

record Release =
  version :: string
  gitTag :: string
  release_notes :: "string option"

text \<open>
  \<^verbatim>\<open>Context\<close>: \<open>branch\<close> is \<^verbatim>\<open>context.branch.name\<close>; the logger is part of the
  state below.
\<close>

record Context =
  branch :: string
  cwd :: "string option"
  env :: Env
  lastRelease :: Release
  nextRelease :: Release

text \<open>The fields of a parsed repository URL (git-url-parse) that the plugin reads.\<close>

record GitUrl =
  url_name :: string
  url_owner :: string
  url_href :: string

text \<open>\<^verbatim>\<open>Metadata\<close>, the description of a pull request to create.\<close>

record Metadata =
  pr_body :: string
  pr_from :: string
  pr_name :: string
  pr_owner :: string
  pr_title :: string
  pr_to :: string

text \<open>The two shapes of object handed to a lodash template.\<close>

datatype TemplateData =
    CommitData string Release Release
  | RequestData string Release Release string

section \<open>External collaborators and recorded effects\<close>

text \<open>
  Every call that leaves the process is recorded with its outcome: a
  \<^verbatim>\<open>git\<close> invocation through \<^verbatim>\<open>execaSync\<close> (its argument list) and a call of
  \<^verbatim>\<open>createPR\<close> (URL, platform, token, metadata). Logger calls are recorded apart.
\<close>

datatype event =
    Git "string list" "error + string"
  | CreatePR string Platform string Metadata "error + unit"

datatype log_entry =
    Log string
  | LogError string error

record state =
  calls :: "event list"
  logged :: "log_entry list"

text \<open>
  The collaborators whose code is outside the plugin: the JavaScript run time
  (\<^verbatim>\<open>JSON.stringify\<close>, \<^verbatim>\<open>String(error)\<close>, regular expressions, \<^verbatim>\<open>instanceof\<close> against
  the global \<^verbatim>\<open>AggregateError\<close>), lodash \<^verbatim>\<open>template\<close>, git-url-parse, the
  authentication and pull-request modules, and the git binary. The outcome of a git
  invocation or of a pull-request call may depend on the calls made before it.
\<close>

record world =
  JSON_stringify :: "jsval \<Rightarrow> string"
  String_of :: "error \<Rightarrow> string"
  RegExp :: "string \<Rightarrow> error + (string \<Rightarrow> bool)"
  instanceof_AggregateError :: "error \<Rightarrow> bool"
  template :: "string \<Rightarrow> TemplateData \<Rightarrow> error + string"
  parse :: "string \<Rightarrow> error + GitUrl"
  authModificator :: "GitUrl \<Rightarrow> Platform \<Rightarrow> string \<Rightarrow> error + string"
  createPR :: "event list \<Rightarrow> string \<Rightarrow> Platform \<Rightarrow> string \<Rightarrow> Metadata \<Rightarrow> error + unit"
  execaSync :: "event list \<Rightarrow> string list \<Rightarrow> string option \<Rightarrow> Env \<Rightarrow> error + string"

text \<open>Sequencing of two steps, the second skipped when the first throws.\<close>

definition andThen ::
  "(error + 'a) \<times> state \<Rightarrow> ('a \<Rightarrow> state \<Rightarrow> (error + 'b) \<times> state) \<Rightarrow> (error + 'b) \<times> state" where
  "andThen r f = (case r of (Inl e, s) \<Rightarrow> (Inl e, s) | (Inr a, s) \<Rightarrow> f a s)"

definition quoted :: "string \<Rightarrow> string" where
  "quoted s = CHR 0x27 # s @ [CHR 0x27]"

definition log :: "string \<Rightarrow> state \<Rightarrow> state" where
  "log msg s = s\<lparr>logged := logged s @ [Log msg]\<rparr>"

definition log_error :: "string \<Rightarrow> error \<Rightarrow> state \<Rightarrow> state" where
  "log_error msg e s = s\<lparr>logged := logged s @ [LogError msg e]\<rparr>"

text \<open>\<^verbatim>\<open>execaSync("git", args, { cwd, env })\<close>.\<close>

definition git :: "world \<Rightarrow> string list \<Rightarrow> string option \<Rightarrow> Env \<Rightarrow> state \<Rightarrow> (error + string) \<times> state" where
  "git w args dir vars s =
     (let r = execaSync w (calls s) args dir vars
      in (r, s\<lparr>calls := calls s @ [Git args r]\<rparr>))"

text \<open>\<^verbatim>\<open>await createPR(url, platform, token, body)\<close>.\<close>

definition call_createPR ::
  "world \<Rightarrow> string \<Rightarrow> Platform \<Rightarrow> string \<Rightarrow> Metadata \<Rightarrow> state \<Rightarrow> (error + unit) \<times> state" where
  "call_createPR w url p tok body s =
     (let r = createPR w (calls s) url p tok body
      in (r, s\<lparr>calls := calls s @ [CreatePR url p tok body r]\<rparr>))"

section \<open>The git adapter (lib/git.ts)\<close>

fun split_on :: "char \<Rightarrow> string \<Rightarrow> string list" where
  "split_on c [] = [[]]"
| "split_on c (x # xs) =
     (if x = c then [] # split_on c xs
      else (case split_on c xs of [] \<Rightarrow> [[x]] | piece # pieces \<Rightarrow> (x # piece) # pieces))"

definition startsWith :: "string \<Rightarrow> string \<Rightarrow> bool" where
  "startsWith s p = (take (length p) s = p)"

text \<open>\<^verbatim>\<open>[...new Set(xs)]\<close>: the first occurrence of each element, in order.\<close>

fun unique_from :: "'a list \<Rightarrow> 'a list \<Rightarrow> 'a list" where
  "unique_from seen [] = []"
| "unique_from seen (x # xs) =
     (if x \<in> set seen then unique_from seen xs else x # unique_from (seen @ [x]) xs)"

text \<open>
  The parsing of the output of \<^verbatim>\<open>git ls-remote --heads\<close>. On a string that starts with
  \<^verbatim>\<open>refs/heads/\<close>, replacing the first occurrence of it by the empty string drops that
  prefix.
\<close>

definition parse_heads :: "string \<Rightarrow> string list" where
  "parse_heads stdout =
     unique_from []
       (map (drop (length ''refs/heads/''))
         (filter (\<lambda>b. startsWith b ''refs/heads/'')
           (concat (map (split_on (CHR 0x09)) (split_on (CHR 0x0A) stdout)))))"

definition git_ls :: "world \<Rightarrow> string \<Rightarrow> string option \<Rightarrow> Env \<Rightarrow> state \<Rightarrow> (error + string list) \<times> state" where
  "git_ls w remote dir vars s =
     andThen (git w [''ls-remote'', ''--heads'', remote] dir vars s)
       (\<lambda>stdout s'. (Inr (parse_heads stdout), s'))"

definition git_checkout :: "world \<Rightarrow> string \<Rightarrow> string option \<Rightarrow> Env \<Rightarrow> state \<Rightarrow> (error + unit) \<times> state" where
  "git_checkout w b dir vars s =
     andThen (git w [''checkout'', ''-b'', b] dir vars s) (\<lambda>out s'. (Inr (), s'))"

definition git_fetch :: "world \<Rightarrow> string \<Rightarrow> string option \<Rightarrow> Env \<Rightarrow> state \<Rightarrow> (error + unit) \<times> state" where
  "git_fetch w remote dir vars s =
     andThen (git w [''fetch'', remote] dir vars s) (\<lambda>out s'. (Inr (), s'))"

definition git_add :: "world \<Rightarrow> string list \<Rightarrow> string option \<Rightarrow> Env \<Rightarrow> state \<Rightarrow> (error + unit) \<times> state" where
  "git_add w globs dir vars s =
     andThen (git w ([''add'', ''--force'', ''--ignore-errors''] @ globs) dir vars s)
       (\<lambda>out s'. (Inr (), s'))"

definition git_commit :: "world \<Rightarrow> string \<Rightarrow> string option \<Rightarrow> Env \<Rightarrow> state \<Rightarrow> (error + unit) \<times> state" where
  "git_commit w msg dir vars s =
     andThen (git w [''commit'', ''-m'', msg] dir vars s) (\<lambda>out s'. (Inr (), s'))"

definition git_push ::
  "world \<Rightarrow> string \<Rightarrow> string \<Rightarrow> bool \<Rightarrow> string option \<Rightarrow> Env \<Rightarrow> state \<Rightarrow> (error + unit) \<times> state" where
  "git_push w remote b dry dir vars s =
     (let args = [''push'', remote, ''HEAD:'' @ b];
          args = (if dry then args @ [''--dry-run''] else args)
      in andThen (git w args dir vars s) (\<lambda>out s'. (Inr (), s')))"

section \<open>Request orchestration (lib/requests.ts)\<close>

text \<open>
  The body shared by the two \<^verbatim>\<open>try\<close> blocks that open a pull request: interpolate the
  title, build the metadata, call \<^verbatim>\<open>createPR\<close> on \<^verbatim>\<open>baseUrl + apiPathPrefix\<close>.
\<close>

definition try_createPR ::
  "world \<Rightarrow> Context \<Rightarrow> RequestsConfig \<Rightarrow> GitUrl \<Rightarrow> string \<Rightarrow> string \<Rightarrow> state
     \<Rightarrow> (error + unit) \<times> state" where
  "try_createPR w context config url src dst s =
     (let templateData = RequestData src (lastRelease context) (nextRelease context) dst
      in andThen (template w (title config) templateData, s)
           (\<lambda>t s.
              let body = \<lparr>pr_body = (case release_notes (nextRelease context) of
                                        None \<Rightarrow> '''' | Some n \<Rightarrow> n),
                          pr_from = src,
                          pr_name = url_name url,
                          pr_owner = url_owner url,
                          pr_title = t,
                          pr_to = dst\<rparr>
              in call_createPR w (baseUrl config @ apiPathPrefix config) (platform config)
                   (token config) body s))"

text \<open>The first \<^verbatim>\<open>try\<close> block of \<^verbatim>\<open>processRequest\<close>.\<close>

definition try_push_assets ::
  "world \<Rightarrow> Context \<Rightarrow> RequestsConfig \<Rightarrow> string \<Rightarrow> string \<Rightarrow> state \<Rightarrow> (error + unit) \<times> state" where
  "try_push_assets w context config authRemote changesBranch s =
     (let releaseBranch = branch context
      in andThen (git_checkout w changesBranch (cwd context) (env context) s) (\<lambda>u s.
         andThen (git_add w (assets config) (cwd context) (env context) s) (\<lambda>u s.
         let templateData = CommitData releaseBranch (lastRelease context) (nextRelease context)
         in andThen (template w (commit config) templateData, s) (\<lambda>msg s.
            andThen (git_commit w msg (cwd context) (env context) s) (\<lambda>u s.
            let s = (if dryRun config
                     then log (''Running with --dry-run, push to '' @ quoted changesBranch
                               @ '' will not update remote state.'') s
                     else s)
            in andThen (git_push w authRemote changesBranch (dryRun config)
                          (cwd context) (env context) s) (\<lambda>u s.
               git_checkout w releaseBranch (cwd context) (env context) s))))))"

definition processRequest ::
  "world \<Rightarrow> Context \<Rightarrow> RequestsConfig \<Rightarrow> state \<Rightarrow> (error + unit) \<times> state" where
  "processRequest w context config s =
     (if length (assets config) = 0 then (Inr (), s)
      else
        let releaseBranch = branch context
        in case parse w (repositoryUrl config) of
             Inl e \<Rightarrow> (Inl e, s)
           | Inr url \<Rightarrow>
               (case authModificator w url (platform config) (token config) of
                  Inl e \<Rightarrow> (Inl e, s)
                | Inr authRemote \<Rightarrow>
                    let changesBranch =
                          ''release/'' @ releaseBranch @ ''/'' @ version (nextRelease context)
                    in (case try_push_assets w context config authRemote changesBranch s of
                         (Inl error, s1) \<Rightarrow>
                           (Inl (SemanticReleaseError
                                   (''Failed to add release assets to '' @ changesBranch
                                    @ '' branch. Not proceeded with release.'')
                                   ''EPUSHASSETS'' (Some (String_of w error))), s1)
                       | (Inr u, s1) \<Rightarrow>
                           (case try_createPR w context config url changesBranch releaseBranch s1 of
                              (Inl error, s2) \<Rightarrow>
                                (Inr (),
                                 log_error (''Failed to create pull request from ''
                                            @ quoted changesBranch @ '' to ''
                                            @ quoted releaseBranch @ ''.'') error s2)
                            | (Inr u, s2) \<Rightarrow> (Inr (), s2)))))"

text \<open>
  \<^verbatim>\<open>str.match(pattern)\<close> with a string pattern compiles it (a \<^verbatim>\<open>SyntaxError\<close> when it
  is not a regular expression) and searches \<open>str\<close>; the callers only test whether the
  result is \<^verbatim>\<open>null\<close>.
\<close>

definition js_match :: "world \<Rightarrow> string \<Rightarrow> string \<Rightarrow> error + bool" where
  "js_match w str pattern =
     (case RegExp w pattern of Inl e \<Rightarrow> Inl e | Inr matcher \<Rightarrow> Inr (matcher str))"

text \<open>\<^verbatim>\<open>Array.prototype.find\<close> with a callback that may throw.\<close>

fun findE :: "('a \<Rightarrow> error + bool) \<Rightarrow> 'a list \<Rightarrow> error + 'a option" where
  "findE p [] = Inr None"
| "findE p (x # xs) =
     (case p x of
        Inl e \<Rightarrow> Inl e
      | Inr b \<Rightarrow> if b then Inr (Some x) else findE p xs)"

definition candidate_js :: "ReleaseCandidate \<Rightarrow> jsval" where
  "candidate_js c = JObj [(''from'', JStr (cand_from c)), (''to'', JStr (cand_to c))]"

text \<open>
  The callback of the second filter over the remote branches: the value of
  \<^verbatim>\<open>find\<close>, a target pattern or \<^verbatim>\<open>undefined\<close>, is used as the condition.
\<close>

definition matches_target :: "world \<Rightarrow> ReleaseCandidate list \<Rightarrow> string \<Rightarrow> error + bool" where
  "matches_target w appropriates b =
     (case findE (\<lambda>target. js_match w b target) (map cand_to appropriates) of
        Inl e \<Rightarrow> Inl e
      | Inr found \<Rightarrow>
          Inr (truthy (case found of None \<Rightarrow> JUndefined | Some target \<Rightarrow> JStr target)))"

definition getBranches ::
  "world \<Rightarrow> Context \<Rightarrow> RequestsConfig \<Rightarrow> state \<Rightarrow> (error + string list) \<times> state" where
  "getBranches w context config s =
     (let releaseBranch = branch context
      in case filterE (\<lambda>c. js_match w releaseBranch (cand_from c)) (candidates config) of
           Inl e \<Rightarrow> (Inl e, s)
         | Inr appropriates \<Rightarrow>
             if length appropriates = 0 then
               (Inr [],
                log (''Current branch '' @ quoted releaseBranch
                     @ '' doesn't match any configured candidates.'') s)
             else
               let s = log (''Current branch '' @ quoted releaseBranch
                            @ '' matches following configured candidates: ''
                            @ quoted (JSON_stringify w (JArr (map candidate_js appropriates)))
                            @ ''. Performing pull requests creation.'') s
               in andThen (git_fetch w (repositoryUrl config) (cwd context) (env context) s) (\<lambda>u s.
                  andThen (git_ls w (repositoryUrl config) (cwd context) (env context) s) (\<lambda>remote s.
                    case filterE (matches_target w appropriates)
                           (filter (\<lambda>b. releaseBranch \<noteq> b) remote) of
                      Inl e \<Rightarrow> (Inl e, s)
                    | Inr branches \<Rightarrow>
                        if length branches = 0 then
                          (Inr [],
                           log ''No configured candidates is present in remote origin, no pull request to create.'' s)
                        else
                          (Inr branches,
                           log (''Retrieved following branches present in remote origin: ''
                                @ quoted (JSON_stringify w (JArr (map JStr branches)))) s))))"

text \<open>The \<^verbatim>\<open>for\<close> loop of \<^verbatim>\<open>createRequests\<close>, with the list \<open>errors\<close> it fills.\<close>

fun requests_loop ::
  "world \<Rightarrow> Context \<Rightarrow> RequestsConfig \<Rightarrow> GitUrl \<Rightarrow> string list \<Rightarrow> error list \<Rightarrow> state
     \<Rightarrow> error list \<times> state" where
  "requests_loop w context config url [] errors s = (errors, s)"
| "requests_loop w context config url (b # rest) errors s =
     (let releaseBranch = branch context
      in if dryRun config then
           requests_loop w context config url rest errors
             (log (''Running with --dry-run, created pull request would have been from ''
                   @ quoted releaseBranch @ '' into '' @ quoted b @ ''.'') s)
         else
           (case try_createPR w context config url releaseBranch b s of
              (Inl prError, s') \<Rightarrow>
                requests_loop w context config url rest
                  (errors @ [SemanticReleaseError
                               (''Failed to create pull request from '' @ quoted releaseBranch
                                @ '' to '' @ quoted b @ ''.'')
                               ''EPULLREQUEST'' (Some (String_of w prError))]) s'
            | (Inr u, s') \<Rightarrow> requests_loop w context config url rest errors s'))"

definition createRequests ::
  "world \<Rightarrow> Context \<Rightarrow> RequestsConfig \<Rightarrow> string list \<Rightarrow> state \<Rightarrow> (error + unit) \<times> state" where
  "createRequests w context config branches s =
     (case parse w (repositoryUrl config) of
        Inl e \<Rightarrow> (Inl e, s)
      | Inr url \<Rightarrow>
          (case requests_loop w context config url branches [] s of
             (errors, s') \<Rightarrow>
               if length errors > 0 then (Inl (AggregateError errors), s') else (Inr (), s')))"

section \<open>Lifecycle hooks (index.ts)\<close>

text \<open>
  The hooks hand the validated run-time object to functions typed on
  \<^verbatim>\<open>RequestsConfig\<close>. \<open>typedConfig\<close> reads the object at the declared types; it is
  defined on every result of \<open>ensureDefault\<close> that \<open>verifyConfig\<close> accepts (lemma
  \<open>verifyConfig_typed\<close>).
\<close>

fun the_string :: "jsval \<Rightarrow> string option" where
  "the_string (JStr s) = Some s"
| "the_string v = None"

fun the_bool :: "jsval \<Rightarrow> bool option" where
  "the_bool (JBool b) = Some b"
| "the_bool v = None"

fun the_list :: "(jsval \<Rightarrow> 'a option) \<Rightarrow> jsval list \<Rightarrow> 'a list option" where
  "the_list f [] = Some []"
| "the_list f (x # xs) =
     (case f x of
        None \<Rightarrow> None
      | Some y \<Rightarrow> (case the_list f xs of None \<Rightarrow> None | Some ys \<Rightarrow> Some (y # ys)))"

fun the_array :: "(jsval \<Rightarrow> 'a option) \<Rightarrow> jsval \<Rightarrow> 'a list option" where
  "the_array f (JArr xs) = the_list f xs"
| "the_array f v = None"

fun the_candidate :: "jsval \<Rightarrow> ReleaseCandidate option" where
  "the_candidate (JObj kvs) =
     (case (map_of kvs ''from'', map_of kvs ''to'') of
        (Some (JStr f), Some (JStr t)) \<Rightarrow> Some \<lparr>cand_from = f, cand_to = t\<rparr>
      | other \<Rightarrow> None)"
| "the_candidate v = None"

definition the_platform :: "jsval \<Rightarrow> Platform option" where
  "the_platform v =
     (case v of
        JStr s \<Rightarrow> find (\<lambda>p. platform_string p = s) Platform_values
      | other \<Rightarrow> None)"

definition typedConfig :: "JsConfig \<Rightarrow> RequestsConfig option" where
  "typedConfig c =
     Option.bind (the_bool (c K_debug)) (\<lambda>v_debug.
     Option.bind (the_bool (c K_dryRun)) (\<lambda>v_dryRun.
     Option.bind (the_string (c K_repositoryUrl)) (\<lambda>v_repositoryUrl.
     Option.bind (the_string (c K_apiPathPrefix)) (\<lambda>v_apiPathPrefix.
     Option.bind (the_string (c K_baseUrl)) (\<lambda>v_baseUrl.
     Option.bind (the_platform (c K_platform)) (\<lambda>v_platform.
     Option.bind (the_string (c K_token)) (\<lambda>v_token.
     Option.bind (the_array the_candidate (c K_candidates)) (\<lambda>v_candidates.
     Option.bind (the_string (c K_title)) (\<lambda>v_title.
     Option.bind (the_string (c K_commit)) (\<lambda>v_commit.
     Option.bind (the_array the_string (c K_assets)) (\<lambda>v_assets.
       Some \<lparr>debug = v_debug, dryRun = v_dryRun, repositoryUrl = v_repositoryUrl,
             apiPathPrefix = v_apiPathPrefix, baseUrl = v_baseUrl, platform = v_platform,
             token = v_token, candidates = v_candidates, title = v_title,
             commit = v_commit, assets = v_assets\<rparr>)))))))))))"

definition ill_typed :: error where
  "ill_typed = JsError ''TypeError'' ''configuration value of an unexpected type''"

definition verifyConditions :: "world \<Rightarrow> JsConfig \<Rightarrow> Context \<Rightarrow> error + JsConfig" where
  "verifyConditions w globalConfig context =
     (let config = ensureDefault globalConfig (env context)
      in case verifyConfig (JSON_stringify w) (Object_entries config) of
           Inl e \<Rightarrow> Inl e
         | Inr u \<Rightarrow> Inr config)"

text \<open>
  \<^verbatim>\<open>prepare\<close> calls \<^verbatim>\<open>processRequest\<close> without awaiting the promise it returns: the
  effects of \<^verbatim>\<open>processRequest\<close> take place, its outcome does not reach the caller of
  \<^verbatim>\<open>prepare\<close>.
\<close>

definition prepare :: "world \<Rightarrow> JsConfig \<Rightarrow> Context \<Rightarrow> state \<Rightarrow> (error + unit) \<times> state" where
  "prepare w globalConfig context s =
     (case verifyConditions w globalConfig context of
        Inl e \<Rightarrow> (Inl e, s)
      | Inr config \<Rightarrow>
          (case typedConfig config of
             None \<Rightarrow> (Inl ill_typed, s)
           | Some c \<Rightarrow> (case processRequest w context c s of (r, s') \<Rightarrow> (Inr (), s'))))"

fun is_SemanticReleaseError :: "error \<Rightarrow> bool" where
  "is_SemanticReleaseError (SemanticReleaseError m c d) = True"
| "is_SemanticReleaseError e = False"

definition success :: "world \<Rightarrow> JsConfig \<Rightarrow> Context \<Rightarrow> state \<Rightarrow> (error + unit) \<times> state" where
  "success w globalConfig context s =
     (case verifyConditions w globalConfig context of
        Inl e \<Rightarrow> (Inl e, s)
      | Inr config \<Rightarrow>
          (case typedConfig config of
             None \<Rightarrow> (Inl ill_typed, s)
           | Some c \<Rightarrow>
               (case andThen (getBranches w context c s)
                       (\<lambda>branches s. createRequests w context c branches s) of
                  (Inl error, s') \<Rightarrow>
                    if instanceof_AggregateError w error \<or> is_SemanticReleaseError error
                    then (Inl error, s')
                    else (Inl (SemanticReleaseError
                                 ''Failed to create release candidates pull requests.''
                                 ''ERCPULLREQUESTS'' (Some (String_of w error))), s')
                | (Inr u, s') \<Rightarrow> (Inr (), s'))))"

section \<open>Reference formulations\<close>

text \<open>
  The priority rule in the words of the specification: the value of the first variable
  of a list that is present in the environment, \<^verbatim>\<open>undefined\<close> when none is.
\<close>

fun first_set :: "Env \<Rightarrow> string list \<Rightarrow> jsval" where
  "first_set vars [] = JUndefined"
| "first_set vars (n # ns) =
     (if env_get vars n \<noteq> JUndefined then env_get vars n else first_set vars ns)"

text \<open>
  The sources of a base URL in priority order, each with the platform it selects and
  the default API path prefix: the explicit setting, then the environment.
\<close>

definition url_sources :: "JsConfig \<Rightarrow> Env \<Rightarrow> (jsval \<times> Platform \<times> string) list" where
  "url_sources config vars =
     [(config K_baseUrl, NULL, ''''),
      (first_set vars [''BITBUCKET_URL''], BITBUCKET, ''/rest/api/1.0''),
      (first_set vars [''BITBUCKET_CLOUD_URL''], BITBUCKET_CLOUD, ''/2.0''),
      (first_set vars [''GITEA_URL''], GITEA, ''/api/v1''),
      (first_set vars [''GH_URL'', ''GITHUB_URL'', ''GITHUB_API_URL''], GITHUB, ''''),
      (first_set vars [''GL_URL'', ''GITLAB_URL'', ''CI_SERVER_URL''], GITLAB, ''/api/v4'')]"

definition token_variables :: "string list" where
  "token_variables = [''BB_TOKEN'', ''BITBUCKET_TOKEN'', ''GITEA_TOKEN'', ''GH_TOKEN'',
                      ''GITHUB_TOKEN'', ''GL_TOKEN'', ''GITLAB_TOKEN'']"

text \<open>
  The selection of target branches in the words of the specification: the remote
  branches other than the release branch that match the \<open>to\<close> pattern of a candidate
  whose \<open>from\<close> pattern matches the release branch.
\<close>

definition matches :: "world \<Rightarrow> string \<Rightarrow> string \<Rightarrow> bool" where
  "matches w str pattern = (js_match w str pattern = Inr True)"

definition expected_branches ::
  "world \<Rightarrow> string \<Rightarrow> ReleaseCandidate list \<Rightarrow> string list \<Rightarrow> string list" where
  "expected_branches w releaseBranch cands remote =
     filter (\<lambda>b. b \<noteq> releaseBranch
                 \<and> list_ex (\<lambda>c. matches w releaseBranch (cand_from c) \<and> matches w b (cand_to c)) cands)
       remote"

text \<open>
  The field constraints in the words of the specification: when the value of a
  configuration key is malformed.
\<close>

fun nonempty_string :: "jsval \<Rightarrow> bool" where
  "nonempty_string (JStr s) = (s \<noteq> [])"
| "nonempty_string v = False"

fun has_nonempty_string :: "(string \<times> jsval) list \<Rightarrow> string \<Rightarrow> bool" where
  "has_nonempty_string kvs name =
     (case map_of kvs name of None \<Rightarrow> False | Some v \<Rightarrow> nonempty_string v)"

fun well_formed_candidate :: "jsval \<Rightarrow> bool" where
  "well_formed_candidate (JObj kvs) =
     (has_nonempty_string kvs ''from'' \<and> has_nonempty_string kvs ''to'')"
| "well_formed_candidate v = False"

fun malformed :: "ConfigKey \<Rightarrow> jsval \<Rightarrow> bool" where
  "malformed K_apiPathPrefix v = (\<not> isString v)"
| "malformed K_assets v =
     (case v of JArr xs \<Rightarrow> \<not> list_all nonempty_string xs | other \<Rightarrow> True)"
| "malformed K_baseUrl v = (\<not> nonempty_string v)"
| "malformed K_candidates v =
     (case v of JArr xs \<Rightarrow> \<not> list_all well_formed_candidate xs | other \<Rightarrow> True)"
| "malformed K_commit v = (\<not> nonempty_string v)"
| "malformed K_debug v = (\<not> isBoolean v)"
| "malformed K_dryRun v = (\<not> isBoolean v)"
| "malformed K_platform v =
     (v \<notin> set (map JStr [''bitbucket'', ''bitbucket-cloud'', ''gitea'', ''github'', ''gitlab'']))"
| "malformed K_repositoryUrl v = (\<not> nonempty_string v)"
| "malformed K_title v = (\<not> nonempty_string v)"
| "malformed K_token v = (\<not> nonempty_string v)"

text \<open>
  An object whose property names are configuration keys, given by its properties in
  order.
\<close>

definition object_of :: "(ConfigKey \<times> jsval) list \<Rightarrow> JsObject" where
  "object_of kvs = map (\<lambda>(key, v). (key_name key, v)) kvs"

text \<open>A candidates value none of whose entries is \<^verbatim>\<open>null\<close> or \<^verbatim>\<open>undefined\<close>.\<close>

fun defined_entries :: "jsval \<Rightarrow> bool" where
  "defined_entries (JArr xs) = list_all (\<lambda>x. x \<noteq> JNull \<and> x \<noteq> JUndefined) xs"
| "defined_entries v = True"

text \<open>Every candidates property of the object has such a value.\<close>

definition defined_candidates :: "(ConfigKey \<times> jsval) list \<Rightarrow> bool" where
  "defined_candidates kvs =
     list_all (\<lambda>(key, v). key = K_candidates \<longrightarrow> defined_entries v) kvs"

text \<open>The calls recorded between two states.\<close>

definition new_calls :: "state \<Rightarrow> state \<Rightarrow> event list" where
  "new_calls s s' = drop (length (calls s)) (calls s')"

fun is_CreatePR :: "event \<Rightarrow> bool" where
  "is_CreatePR (CreatePR url p tok body r) = True"
| "is_CreatePR ev = False"

fun failed :: "event \<Rightarrow> bool" where
  "failed (Git args r) = (case r of Inl e \<Rightarrow> True | Inr out \<Rightarrow> False)"
| "failed (CreatePR url p tok body r) = (case r of Inl e \<Rightarrow> True | Inr u \<Rightarrow> False)"

fun is_push :: "event \<Rightarrow> bool" where
  "is_push (Git args r) = (take 1 args = [''push''])"
| "is_push ev = False"

fun git_args :: "event \<Rightarrow> string list" where
  "git_args (Git args r) = args"
| "git_args ev = []"

fun has_code :: "string \<Rightarrow> error \<Rightarrow> bool" where
  "has_code c (SemanticReleaseError m code d) = (code = c)"
| "has_code c e = False"

section \<open>Sample inputs\<close>

text \<open>
  A run-time stub in which every collaborator succeeds: templates are returned as they
  are, a pattern without metacharacters matches the strings that contain it.
\<close>

fun contains :: "string \<Rightarrow> string \<Rightarrow> bool" where
  "contains [] p = (p = [])"
| "contains (x # xs) p = (startsWith (x # xs) p \<or> contains xs p)"

definition sample_world :: world where
  "sample_world =
     \<lparr>JSON_stringify = (\<lambda>v. ''[]''),
      String_of = (\<lambda>e. ''Error''),
      RegExp = (\<lambda>p. Inr (\<lambda>str. contains str p)),
      instanceof_AggregateError = (\<lambda>e. False),
      template = (\<lambda>t d. Inr t),
      parse = (\<lambda>u. Inr \<lparr>url_name = ''semantic-release-requests'',
                            url_owner = ''kilianpaquier'', url_href = u\<rparr>),
      authModificator = (\<lambda>u p t. Inr (url_href u)),
      createPR = (\<lambda>h u p t m. Inr ()),
      execaSync = (\<lambda>h args dir vars. Inr '''')\<rparr>"

text \<open>The same, with a hosting platform that refuses every pull request.\<close>

definition refusing_world :: world where
  "refusing_world =
     sample_world\<lparr>createPR := (\<lambda>h u p t m. Inl (JsError ''Error'' ''422''))\<rparr>"

text \<open>The same, with a remote that rejects every push.\<close>

definition rejecting_world :: world where
  "rejecting_world =
     sample_world\<lparr>execaSync := (\<lambda>h args dir vars.
        if take 1 args = [''push''] then Inl (JsError ''Error'' ''rejected'') else Inr '''')\<rparr>"

text \<open>The same, with a remote that has the branches \<^verbatim>\<open>main\<close> and \<^verbatim>\<open>develop\<close>.\<close>

definition remote_heads :: string where
  "remote_heads = ''1a'' @ [CHR 0x09] @ ''refs/heads/main'' @ [CHR 0x0A]
                  @ ''2b'' @ [CHR 0x09] @ ''refs/heads/develop''"

definition listing_world :: world where
  "listing_world =
     sample_world\<lparr>execaSync := (\<lambda>h args dir vars.
        if take 1 args = [''ls-remote''] then Inr remote_heads else Inr '''')\<rparr>"

definition sample_context :: Context where
  "sample_context =
     \<lparr>branch = ''main'', cwd = None, env = None,
      lastRelease = \<lparr>version = ''1.0.0'', gitTag = ''v1.0.0'', release_notes = None\<rparr>,
      nextRelease = \<lparr>version = ''1.1.0'', gitTag = ''v1.1.0'', release_notes = Some ''notes''\<rparr>\<rparr>"

definition sample_config :: RequestsConfig where
  "sample_config =
     \<lparr>debug = False, dryRun = False,
      repositoryUrl = ''git@github.com:kilianpaquier/semantic-release-requests.git'',
      apiPathPrefix = '''', baseUrl = ''https://example.com'', platform = GITHUB,
      token = ''some token'',
      candidates = [\<lparr>cand_from = ''main'', cand_to = ''develop''\<rparr>],
      title = defaultTitle, commit = defaultCommit, assets = [''CHANGELOG.md'']\<rparr>"

definition initial :: state where
  "initial = \<lparr>calls = [], logged = []\<rparr>"

text \<open>
  The valid options of the validator's test suite: an explicit base URL and platform,
  and the token from \<^verbatim>\<open>GITHUB_TOKEN\<close>.
\<close>

definition test_options :: JsConfig where
  "test_options =
     empty_config(K_baseUrl := JStr ''https://example.com'', K_platform := JStr ''github'')"

definition test_env :: Env where
  "test_env = Some [''GITHUB_TOKEN'' \<mapsto> ''some token'']"

text \<open>The resolved configuration of the validator's tests; its repository URL is empty.\<close>

definition test_config :: JsConfig where
  "test_config = ensureDefault test_options test_env"

text \<open>A configuration with a candidate whose target is empty and an unknown platform.\<close>

definition bad_config :: JsConfig where
  "bad_config =
     test_config(K_repositoryUrl := JStr ''some repository url'',
                 K_platform := JStr ''some invalid value'',
                 K_candidates := JArr [JObj [(''from'', JStr ''main''), (''to'', JStr '''')]])"

text \<open>
  An object with three of the properties, not in the order of \<^verbatim>\<open>ensureDefault\<close>: an
  unknown platform, a candidate whose target is empty, a token.
\<close>

definition partial_object :: "(ConfigKey \<times> jsval) list" where
  "partial_object =
     [(K_platform, JStr ''some invalid value''),
      (K_candidates, JArr [JObj [(''from'', JStr ''main''), (''to'', JStr '''')]]),
      (K_token, JStr ''some token'')]"

text \<open>Options with an asset, a candidate and an unknown platform.\<close>

definition invalid_options :: JsConfig where
  "invalid_options =
     empty_config(K_assets := JArr [JStr ''CHANGELOG.md''],
                  K_baseUrl := JStr ''https://example.com'',
                  K_platform := JStr ''some invalid value'',
                  K_repositoryUrl :=
                    JStr ''git@github.com:kilianpaquier/semantic-release-requests.git'',
                  K_candidates := JArr [JObj [(''from'', JStr ''main''), (''to'', JStr ''develop'')]])"

text \<open>A configuration with a candidate entry that is \<^verbatim>\<open>null\<close>.\<close>

definition null_candidate_config :: JsConfig where
  "null_candidate_config =
     test_config(K_repositoryUrl := JStr ''some repository url'', K_candidates := JArr [JNull])"

text \<open>A configuration whose only candidate starts from \<^verbatim>\<open>staging\<close>.\<close>

definition staging_config :: RequestsConfig where
  "staging_config = sample_config\<lparr>candidates := [\<lparr>cand_from = ''staging'', cand_to = ''develop''\<rparr>]\<rparr>"

text \<open>The code of a \<^verbatim>\<open>SemanticReleaseError\<close>.\<close>

fun error_code :: "error \<Rightarrow> string" where
  "error_code (SemanticReleaseError m c d) = c"
| "error_code e = ''''"

text \<open>Recorded git invocations.\<close>

fun is_Git :: "event \<Rightarrow> bool" where
  "is_Git (Git args r) = True"
| "is_Git ev = False"

text \<open>
  A step started in state \<open>s\<close> appends calls that all satisfy \<open>Q\<close>, and it throws
  when one of them failed.
\<close>

definition records :: "(event \<Rightarrow> bool) \<Rightarrow> state \<Rightarrow> (error + 'a) \<times> state \<Rightarrow> bool" where
  "records Q s rs =
     (\<exists>evs. calls (snd rs) = calls s @ evs \<and> list_all Q evs
            \<and> (list_ex failed evs \<longrightarrow> (\<exists>e. fst rs = Inl e)))"

text \<open>
  What the first \<^verbatim>\<open>try\<close> block of \<^verbatim>\<open>processRequest\<close> may record: git invocations, and
  in dry-run mode a push only with \<^verbatim>\<open>--dry-run\<close>.
\<close>

definition asset_event :: "RequestsConfig \<Rightarrow> event \<Rightarrow> bool" where
  "asset_event config ev =
     (is_Git ev \<and> (dryRun config \<longrightarrow> is_push ev \<longrightarrow> ''--dry-run'' \<in> set (git_args ev)))"

text \<open>The target branch of a recorded pull-request call.\<close>

fun pr_target :: "event \<Rightarrow> string" where
  "pr_target (CreatePR url p tok body r) = pr_to body"
| "pr_target ev = ''''"

text \<open>The title template renders for the request from the release branch to \<open>b\<close>.\<close>

definition title_ok :: "world \<Rightarrow> Context \<Rightarrow> RequestsConfig \<Rightarrow> string \<Rightarrow> bool" where
  "title_ok w context config b =
     (case template w (title config)
             (RequestData (branch context) (lastRelease context) (nextRelease context) b) of
        Inl e \<Rightarrow> False
      | Inr t \<Rightarrow> True)"

text \<open>A configuration whose only candidate has the empty pattern as target.\<close>

definition empty_target_config :: RequestsConfig where
  "empty_target_config =
     sample_config\<lparr>candidates := [\<lparr>cand_from = ''main'', cand_to = ''''\<rparr>]\<rparr>"

text \<open>
  Options of a dry run with one asset; with the environment of the tests they resolve
  to a configuration that passes the validation.
\<close>

definition dry_run_options :: JsConfig where
  "dry_run_options =
     empty_config(K_assets := JArr [JStr ''CHANGELOG.md''],
                  K_baseUrl := JStr ''https://example.com'',
                  K_platform := JStr ''github'',
                  K_repositoryUrl :=
                    JStr ''git@github.com:kilianpaquier/semantic-release-requests.git'',
                  K_candidates := JArr [JObj [(''from'', JStr ''main''), (''to'', JStr ''develop'')]],
                  K_dryRun := JBool True)"

section \<open>Properties of the configuration resolver\<close>

lemma env_get_not_null: "env_get vars n \<noteq> JNull"
  by (simp add: env_get_def split: option.splits)

lemma first_set_single: "first_set vars [n] = env_get vars n"
  by simp

lemma first_set_three:
  "first_set vars [a, b, c] = nullish (nullish (env_get vars a) (env_get vars b)) (env_get vars c)"
  by (simp add: nullish_def env_get_not_null)

lemma nullish_assoc: "nullish (nullish a b) c = nullish a (nullish b c)"
  by (simp add: nullish_def)

lemma nullish_first_set_Nil: "nullish (first_set vars []) d = d"
  by (simp add: nullish_def)

lemma nullish_first_set_Cons:
  "nullish (first_set vars (n # ns)) d = nullish (env_get vars n) (nullish (first_set vars ns) d)"
  by (simp add: nullish_def env_get_not_null)

lemma token_from_env_first_set:
  "token_from_env vars = nullish (first_set vars token_variables) (JStr '''')"
  unfolding token_from_env_def token_variables_def
  by (simp only: nullish_assoc nullish_first_set_Cons nullish_first_set_Nil)

lemma ensureDefault_K_token: "ensureDefault config vars K_token = token_from_env vars"
  by (simp add: ensureDefault_def split: prod.splits)

text \<open>
  C8: whatever the configuration, the token of the resolved configuration is the value
  of the first variable present in the environment among \<^verbatim>\<open>BB_TOKEN\<close>,
  \<^verbatim>\<open>BITBUCKET_TOKEN\<close>, \<^verbatim>\<open>GITEA_TOKEN\<close>, \<^verbatim>\<open>GH_TOKEN\<close>, \<^verbatim>\<open>GITHUB_TOKEN\<close>, \<^verbatim>\<open>GL_TOKEN\<close>,
  \<^verbatim>\<open>GITLAB_TOKEN\<close>, and the empty string when none is present. The right-hand side
  mentions neither the configured token nor the platform.
\<close>

theorem ensureDefault_token:
  "ensureDefault config vars K_token = nullish (first_set vars token_variables) (JStr '''')"
  by (simp only: ensureDefault_K_token token_from_env_first_set)

theorem ensureDefault_token_witness:
  "ensureDefault (empty_config(K_token := JStr ''configured'', K_platform := JStr ''gitlab''))
     (Some [''GH_TOKEN'' \<mapsto> ''first'', ''GITLAB_TOKEN'' \<mapsto> ''second'']) K_token
   = JStr ''first''"
proof -
  have "nullish (first_set (Some [''GH_TOKEN'' \<mapsto> ''first'', ''GITLAB_TOKEN'' \<mapsto> ''second''])
          token_variables) (JStr '''') = JStr ''first''"
    by code_simp
  then show ?thesis
    by (simp only: ensureDefault_token
        [of "empty_config(K_token := JStr ''configured'', K_platform := JStr ''gitlab'')"
            "Some [''GH_TOKEN'' \<mapsto> ''first'', ''GITLAB_TOKEN'' \<mapsto> ''second'']"])
qed

text \<open>
  A token variable that is present with an empty value is the first one set: the later
  variables are not consulted.
\<close>

lemma token_empty_value:
  "ensureDefault config (Some [''BB_TOKEN'' \<mapsto> '''', ''GH_TOKEN'' \<mapsto> ''some token'']) K_token
   = JStr ''''"
  by (simp add: ensureDefault_K_token) code_simp

lemma getURLs_sources:
  "(case find (\<lambda>(v, p, d). truthy v) (url_sources config vars) of
      Some (v, p, d) \<Rightarrow> getURLs config vars = (p, v, nullish (config K_apiPathPrefix) (JStr d))
    | None \<Rightarrow> fst (getURLs config vars) = NULL \<and> fst (snd (getURLs config vars)) = JStr '''')"
  unfolding url_sources_def first_set_three first_set_single
  by (simp add: getURLs_def Let_def)

lemma ensureDefault_getURLs:
  "ensureDefault config vars K_baseUrl = fst (snd (getURLs config vars))
   \<and> ensureDefault config vars K_apiPathPrefix = snd (snd (getURLs config vars))
   \<and> ensureDefault config vars K_platform =
       nullish (config K_platform) (JStr (platform_string (fst (getURLs config vars))))"
  by (simp add: ensureDefault_def split: prod.splits)

text \<open>
  C3, as amended. The sources of a base URL are, in priority order: the explicit
  \<^verbatim>\<open>baseUrl\<close>, \<^verbatim>\<open>BITBUCKET_URL\<close>, \<^verbatim>\<open>BITBUCKET_CLOUD_URL\<close>, \<^verbatim>\<open>GITEA_URL\<close>, the first variable
  present among \<^verbatim>\<open>GH_URL\<close>, \<^verbatim>\<open>GITHUB_URL\<close>, \<^verbatim>\<open>GITHUB_API_URL\<close>, and the first variable
  present among \<^verbatim>\<open>GL_URL\<close>, \<^verbatim>\<open>GITLAB_URL\<close>, \<^verbatim>\<open>CI_SERVER_URL\<close>. The first source with a
  non-empty value gives the base URL, the inferred platform (none, bitbucket,
  bitbucket-cloud, gitea, github, gitlab) and the default API path prefix (empty,
  \<^verbatim>\<open>/rest/api/1.0\<close>, \<^verbatim>\<open>/2.0\<close>, \<^verbatim>\<open>/api/v1\<close>, empty, \<^verbatim>\<open>/api/v4\<close>); a configured
  \<^verbatim>\<open>apiPathPrefix\<close> then replaces the default. When no source has a non-empty value,
  no platform is inferred and the base URL is empty. The platform of the result is the
  configured one if there is one, the inferred one otherwise.
\<close>

theorem ensureDefault_urls:
  "(case find (\<lambda>(v, p, d). truthy v) (url_sources config vars) of
      Some (v, p, d) \<Rightarrow>
        getURLs config vars = (p, v, nullish (config K_apiPathPrefix) (JStr d))
        \<and> ensureDefault config vars K_baseUrl = v
        \<and> ensureDefault config vars K_apiPathPrefix = nullish (config K_apiPathPrefix) (JStr d)
        \<and> ensureDefault config vars K_platform =
            nullish (config K_platform) (JStr (platform_string p))
    | None \<Rightarrow>
        fst (getURLs config vars) = NULL
        \<and> ensureDefault config vars K_baseUrl = JStr ''''
        \<and> ensureDefault config vars K_platform = nullish (config K_platform) (JStr ''''))"
  using getURLs_sources [of config vars] ensureDefault_getURLs [of config vars]
  by (auto split: option.splits)

theorem ensureDefault_urls_witness:
  "find (\<lambda>(v, p, d). truthy v)
     (url_sources (empty_config(K_apiPathPrefix := JStr ''/api/v3''))
        (Some [''CI_SERVER_URL'' \<mapsto> ''https://gitlab.example'']))
     = Some (JStr ''https://gitlab.example'', GITLAB, ''/api/v4'')
   \<and> getURLs (empty_config(K_apiPathPrefix := JStr ''/api/v3''))
        (Some [''CI_SERVER_URL'' \<mapsto> ''https://gitlab.example''])
     = (GITLAB, JStr ''https://gitlab.example'', JStr ''/api/v3'')"
  using ensureDefault_urls
    [of "empty_config(K_apiPathPrefix := JStr ''/api/v3'')"
        "Some [''CI_SERVER_URL'' \<mapsto> ''https://gitlab.example'']"]
  by (simp add: url_sources_def env_get_def empty_config_def nullish_def)

text \<open>
  The claim C3 as stated fails. Here \<^verbatim>\<open>GH_URL\<close> is present with an empty value,
  \<^verbatim>\<open>GITHUB_URL\<close> has a value and an \<^verbatim>\<open>apiPathPrefix\<close> is configured: no platform is
  inferred, the base URL is empty and the configured prefix is dropped.
\<close>

theorem github_url_and_prefix_dropped:
  "env_get (Some [''GH_URL'' \<mapsto> '''', ''GITHUB_URL'' \<mapsto> ''https://github.example'']) ''GH_URL''
     = JStr ''''
   \<and> env_get (Some [''GH_URL'' \<mapsto> '''', ''GITHUB_URL'' \<mapsto> ''https://github.example''])
         ''GITHUB_URL'' = JStr ''https://github.example''
   \<and> (empty_config(K_apiPathPrefix := JStr ''/api/v3'')) K_apiPathPrefix = JStr ''/api/v3''
   \<and> getURLs (empty_config(K_apiPathPrefix := JStr ''/api/v3''))
         (Some [''GH_URL'' \<mapsto> '''', ''GITHUB_URL'' \<mapsto> ''https://github.example''])
       = (NULL, JStr '''', JStr '''')
   \<and> ensureDefault (empty_config(K_apiPathPrefix := JStr ''/api/v3''))
         (Some [''GH_URL'' \<mapsto> '''', ''GITHUB_URL'' \<mapsto> ''https://github.example''])
         K_platform = JStr ''''
   \<and> ensureDefault (empty_config(K_apiPathPrefix := JStr ''/api/v3''))
         (Some [''GH_URL'' \<mapsto> '''', ''GITHUB_URL'' \<mapsto> ''https://github.example''])
         K_apiPathPrefix = JStr ''''"
  by code_simp

text \<open>
  With no base URL configured and none in the environment, a configured
  \<^verbatim>\<open>apiPathPrefix\<close> is dropped as well.
\<close>

lemma apiPathPrefix_ignored:
  "(empty_config(K_apiPathPrefix := JStr ''/api/v3'')) K_apiPathPrefix = JStr ''/api/v3''
   \<and> ensureDefault (empty_config(K_apiPathPrefix := JStr ''/api/v3'')) None K_apiPathPrefix
       = JStr ''''"
  by (simp add: ensureDefault_def getURLs_def empty_config_def env_get_def nullish_def)

section \<open>Properties of the validator\<close>

lemma nonempty_string_iff: "(isString v \<and> stringNotEmpty v) = nonempty_string v"
  by (cases v) (simp_all add: stringNotEmpty_def)

lemma length_filter_all: "(length (filter P xs) = length xs) = list_all P xs"
proof (cases "list_all P xs")
  case True
  then have "filter P xs = xs" by (simp add: list_all_iff)
  with True show ?thesis by simp
next
  case False
  then obtain x where "x \<in> set xs" and "\<not> P x" by (auto simp: list_all_iff)
  then have "length (filter P xs) < length xs" by (rule length_filter_less)
  with False show ?thesis by simp
qed

lemma validCandidate_defined:
  "x \<noteq> JNull \<Longrightarrow> x \<noteq> JUndefined \<Longrightarrow> validCandidate x = Inr (well_formed_candidate x)"
proof (cases x)
  case (JObj kvs)
  then show ?thesis
    by (cases "map_of kvs ''from''"; cases "map_of kvs ''to''")
       (simp_all add: validCandidate_def nonempty_string_iff)
qed (simp_all add: validCandidate_def)

lemma filterE_validCandidate:
  "list_all (\<lambda>x. x \<noteq> JNull \<and> x \<noteq> JUndefined) xs
   \<Longrightarrow> filterE validCandidate xs = Inr (filter well_formed_candidate xs)"
  by (induction xs) (simp_all add: validCandidate_defined)

lemma validCandidatesArray_defined:
  "defined_entries (JArr xs) \<Longrightarrow> validCandidatesArray (JArr xs) = Inr (list_all well_formed_candidate xs)"
  by (simp add: filterE_validCandidate length_filter_all)

lemma validStringArray_array:
  "validStringArray (JArr xs) = Inr (list_all nonempty_string xs)"
  by (simp add: nonempty_string_iff length_filter_all)

lemma validPlatform_string:
  "validPlatform (JStr s) =
     (s \<in> {''bitbucket'', ''bitbucket-cloud'', ''gitea'', ''github'', ''gitlab''})"
  by (auto simp add: validPlatform_def Platform_values_def)

lemma passes_string_nonempty:
  "passes [\<lambda>v. Inr (isString v), \<lambda>v. Inr (stringNotEmpty v)] v = Inr (nonempty_string v)"
  by (cases v) (simp_all add: stringNotEmpty_def)

lemma passes_assets: "passes (validators K_assets) v = Inr (\<not> malformed K_assets v)"
  by (cases v) (simp_all add: validStringArray_array del: validStringArray.simps)

lemma passes_candidates:
  "defined_entries v \<Longrightarrow> passes (validators K_candidates) v = Inr (\<not> malformed K_candidates v)"
  by (cases v) (simp_all add: validCandidatesArray_defined del: validCandidatesArray.simps)

lemma passes_platform: "passes (validators K_platform) v = Inr (\<not> malformed K_platform v)"
  by (cases v) (auto simp add: validPlatform_string)

lemma passes_malformed:
  "(key = K_candidates \<longrightarrow> defined_entries v)
   \<Longrightarrow> passes (validators key) v = Inr (\<not> malformed key v)"
proof (cases key)
  case K_assets
  then show ?thesis by (simp only: passes_assets)
next
  case K_candidates
  assume "key = K_candidates \<longrightarrow> defined_entries v"
  with K_candidates show ?thesis by (simp only: passes_candidates)
next
  case K_platform
  then show ?thesis by (simp only: passes_platform)
next
  case K_apiPathPrefix
  then show ?thesis by simp
next
  case K_debug
  then show ?thesis by simp
next
  case K_dryRun
  then show ?thesis by simp
qed (simp_all add: passes_string_nonempty del: passes.simps)

lemma key_of_key_name: "key_of (key_name key) = Some key"
  by (cases key) (simp_all add: key_of_def RequestsConfig_keys_def)

lemma collect_errors_malformed:
  "defined_candidates kvs
   \<Longrightarrow> collect_errors stringify (object_of kvs) agg =
       Inr (agg @ map (\<lambda>(key, v). getConfigError stringify key v)
                    (filter (\<lambda>(key, v). malformed key v) kvs))"
proof (induction kvs arbitrary: agg)
  case Nil
  then show ?case by (simp add: object_of_def)
next
  case (Cons kv kvs)
  obtain key v where kv: "kv = (key, v)" by (cases kv)
  from Cons.prems kv have d: "key = K_candidates \<longrightarrow> defined_entries v"
    and rest: "defined_candidates kvs"
    by (simp_all add: defined_candidates_def)
  have step: "collect_errors stringify (object_of (kv # kvs)) agg =
                collect_errors stringify (object_of kvs)
                  (if malformed key v then agg @ [getConfigError stringify key v] else agg)"
    using kv passes_malformed [OF d]
    by (simp add: object_of_def key_of_key_name del: validators.simps malformed.simps)
  show ?case
    unfolding step using Cons.IH [OF rest] kv
    by (simp del: malformed.simps)
qed

lemma verifyConfig_object:
  "defined_candidates kvs
   \<Longrightarrow> verifyConfig stringify (object_of kvs) =
         (if list_ex (\<lambda>(key, v). malformed key v) kvs
          then Inl (AggregateError
                      (map (\<lambda>(key, v). getConfigError stringify key v)
                         (filter (\<lambda>(key, v). malformed key v) kvs)))
          else Inr ())"
proof -
  have "(filter (\<lambda>(key, v). malformed key v) kvs = [])
        = (\<not> list_ex (\<lambda>(key, v). malformed key v) kvs)"
    by (simp add: filter_empty_conv list_ex_iff)
  moreover assume "defined_candidates kvs"
  ultimately show ?thesis
    by (simp add: verifyConfig_def collect_errors_malformed del: malformed.simps)
qed

text \<open>
  C5, as amended. For every configuration object whose property names are
  configuration keys and whose candidates value, when an array, has no \<^verbatim>\<open>null\<close> or
  \<^verbatim>\<open>undefined\<close> entry: \<open>verifyConfig\<close> throws an aggregate error that holds, in the
  order of the object's properties, the error of \<open>getConfigError\<close> for each property
  whose value is malformed and nothing else, and it returns without throwing exactly
  when no property of the object has a malformed value. A key that the object does not
  have is not checked. The malformed values are those the claim lists (also assets or
  candidates that are not arrays) and, in addition, \<^verbatim>\<open>debug\<close> or \<^verbatim>\<open>dryRun\<close> that is not
  a boolean and \<^verbatim>\<open>repositoryUrl\<close> that is empty or not a string.
\<close>

theorem verifyConfig_errors:
  assumes "defined_candidates kvs"
  shows "verifyConfig stringify (object_of kvs) =
           (if list_ex (\<lambda>(key, v). malformed key v) kvs
            then Inl (AggregateError
                        (map (\<lambda>(key, v). getConfigError stringify key v)
                           (filter (\<lambda>(key, v). malformed key v) kvs)))
            else Inr ())"
  using assms by (rule verifyConfig_object)

theorem verifyConfig_errors_witness:
  "defined_candidates partial_object
   \<and> object_of partial_object =
       [(''platform'', JStr ''some invalid value''),
        (''candidates'', JArr [JObj [(''from'', JStr ''main''), (''to'', JStr '''')]]),
        (''token'', JStr ''some token'')]
   \<and> verifyConfig (JSON_stringify sample_world) (object_of partial_object) =
       Inl (AggregateError
              [getConfigError (JSON_stringify sample_world) K_platform
                 (JStr ''some invalid value''),
               getConfigError (JSON_stringify sample_world) K_candidates
                 (JArr [JObj [(''from'', JStr ''main''), (''to'', JStr '''')]])])"
proof -
  have d: "defined_candidates partial_object"
    by code_simp
  have o: "object_of partial_object =
       [(''platform'', JStr ''some invalid value''),
        (''candidates'', JArr [JObj [(''from'', JStr ''main''), (''to'', JStr '''')]]),
        (''token'', JStr ''some token'')]"
    by code_simp
  have "(if list_ex (\<lambda>(key, v). malformed key v) partial_object
         then Inl (AggregateError
                     (map (\<lambda>(key, v). getConfigError (JSON_stringify sample_world) key v)
                        (filter (\<lambda>(key, v). malformed key v) partial_object)))
         else Inr ())
        = Inl (AggregateError
              [getConfigError (JSON_stringify sample_world) K_platform
                 (JStr ''some invalid value''),
               getConfigError (JSON_stringify sample_world) K_candidates
                 (JArr [JObj [(''from'', JStr ''main''), (''to'', JStr '''')]])])"
    by code_simp
  with d o verifyConfig_errors [where kvs = partial_object and stringify = "JSON_stringify sample_world"]
  show ?thesis
    by (simp only:)
qed

text \<open>
  On the object that \<open>ensureDefault\<close> returns, which has the eleven properties, every
  key is checked, in the order of the literal.
\<close>

lemma Object_entries_object_of:
  "Object_entries config = object_of (map (\<lambda>key. (key, config key)) RequestsConfig_keys)"
  by (simp add: Object_entries_def object_of_def)

lemma verifyConfig_resolved:
  assumes "defined_entries (config K_candidates)"
  shows "verifyConfig stringify (Object_entries config) =
           (if list_ex (\<lambda>key. malformed key (config key)) RequestsConfig_keys
            then Inl (AggregateError
                        (map (\<lambda>key. getConfigError stringify key (config key))
                           (filter (\<lambda>key. malformed key (config key)) RequestsConfig_keys)))
            else Inr ())"
proof -
  let ?kvs = "map (\<lambda>key. (key, config key)) RequestsConfig_keys"
  from assms have "defined_candidates ?kvs"
    by (simp add: defined_candidates_def list_all_iff)
  from verifyConfig_object [OF this, of stringify] show ?thesis
    by (simp add: Object_entries_object_of list_ex_iff filter_map comp_def del: malformed.simps)
qed

lemma verifyConfig_resolved_instance:
  "verifyConfig (JSON_stringify sample_world) (Object_entries bad_config) =
     Inl (AggregateError
            [getConfigError (JSON_stringify sample_world) K_candidates (bad_config K_candidates),
             getConfigError (JSON_stringify sample_world) K_platform (bad_config K_platform)])"
  by code_simp

text \<open>
  The claim C5 as stated fails. The valid configuration of the validator's tests has
  none of the listed fields malformed, and \<open>verifyConfig\<close> throws on it, because its
  repository URL is empty. On a candidate entry that is \<^verbatim>\<open>null\<close> the validator
  throws no configuration error: reading \<^verbatim>\<open>target.from\<close> throws. And on the empty
  object, which has no token, \<open>verifyConfig\<close> returns.
\<close>

theorem listed_fields_not_enough:
  "\<not> malformed K_apiPathPrefix (test_config K_apiPathPrefix)
   \<and> \<not> malformed K_assets (test_config K_assets)
   \<and> \<not> malformed K_baseUrl (test_config K_baseUrl)
   \<and> \<not> malformed K_candidates (test_config K_candidates)
   \<and> \<not> malformed K_commit (test_config K_commit)
   \<and> \<not> malformed K_platform (test_config K_platform)
   \<and> \<not> malformed K_title (test_config K_title)
   \<and> \<not> malformed K_token (test_config K_token)
   \<and> verifyConfig (JSON_stringify sample_world) (Object_entries test_config) =
       Inl (AggregateError
              [SemanticReleaseError
                 ''Invalid 'repositoryUrl' configuration (coming from semantic-release options).''
                 ''EINVALIDREPOSITORYURL'' None])
   \<and> null_candidate_config K_candidates = JArr [JNull]
   \<and> verifyConfig (JSON_stringify sample_world) (Object_entries null_candidate_config) =
       Inl (JsError ''TypeError'' ''Cannot read properties of null (reading 'from')'')
   \<and> malformed K_token JUndefined
   \<and> verifyConfig (JSON_stringify sample_world) [] = Inr ()"
  by code_simp

text \<open>
  The entries of the object decide the order of the errors, and a property whose name
  is not a configuration key makes the validator throw a \<^verbatim>\<open>TypeError\<close>.
\<close>

lemma verifyConfig_object_order:
  "verifyConfig (JSON_stringify sample_world)
     [(''token'', JStr ''''), (''baseUrl'', JStr '''')] =
     Inl (AggregateError
            [getConfigError (JSON_stringify sample_world) K_token (JStr ''''),
             getConfigError (JSON_stringify sample_world) K_baseUrl (JStr '''')])"
  by code_simp

lemma verifyConfig_unknown_key:
  "verifyConfig stringify ((''verbose'', v) # rest) = Inl not_iterable"
  by (simp add: verifyConfig_def key_of_def RequestsConfig_keys_def)

text \<open>The code of a configuration error is \<^verbatim>\<open>EINVALID\<close> and the key in upper case.\<close>

lemma getConfigError_code:
  "error_code (getConfigError stringify k v) = ''EINVALID'' @ toUpperCase (key_name k)"
  by (simp add: getConfigError_def Let_def)

lemma config_error_codes:
  "map (\<lambda>k. ''EINVALID'' @ toUpperCase (key_name k)) RequestsConfig_keys =
     [''EINVALIDAPIPATHPREFIX'', ''EINVALIDASSETS'', ''EINVALIDBASEURL'', ''EINVALIDCANDIDATES'',
      ''EINVALIDCOMMIT'', ''EINVALIDDEBUG'', ''EINVALIDDRYRUN'', ''EINVALIDPLATFORM'',
      ''EINVALIDREPOSITORYURL'', ''EINVALIDTITLE'', ''EINVALIDTOKEN'']"
  by code_simp

section \<open>Properties of the orchestration\<close>

text \<open>
  C9: with an empty list of assets \<open>processRequest\<close> returns at once: no call is
  recorded, nothing is logged, whatever the other fields and the context are.
\<close>

theorem processRequest_no_assets:
  "assets config = [] \<Longrightarrow> processRequest w context config s = (Inr (), s)"
  by (simp add: processRequest_def)

theorem processRequest_no_assets_witness:
  "assets (sample_config\<lparr>assets := []\<rparr>) = []
   \<and> processRequest sample_world sample_context (sample_config\<lparr>assets := []\<rparr>) initial
       = (Inr (), initial)"
  using processRequest_no_assets
    [of "sample_config\<lparr>assets := []\<rparr>" sample_world sample_context initial]
  by simp

lemma filterE_all_False: "\<forall>x\<in>set xs. p x = Inr False \<Longrightarrow> filterE p xs = Inr []"
  by (induction xs) simp_all

lemma filterE_none_True:
  "\<forall>x\<in>set xs. p x \<noteq> Inr True \<Longrightarrow> filterE p xs = Inr ys \<Longrightarrow> ys = []"
  by (induction xs arbitrary: ys) (auto split: sum.splits if_splits)

text \<open>
  When no candidate's \<open>from\<close> pattern matches the release branch, \<open>getBranches\<close>
  records no call, also when a pattern is not a regular expression.
\<close>

lemma getBranches_frame:
  assumes "\<forall>c\<in>set (candidates config). js_match w (branch context) (cand_from c) \<noteq> Inr True"
  shows "calls (snd (getBranches w context config s)) = calls s"
proof (cases "filterE (\<lambda>c. js_match w (branch context) (cand_from c)) (candidates config)")
  case (Inl e)
  then show ?thesis by (simp add: getBranches_def)
next
  case (Inr appropriates)
  from filterE_none_True [OF _ Inr] assms have "appropriates = []" by blast
  with Inr show ?thesis by (simp add: getBranches_def log_def)
qed

text \<open>
  C10: when the release branch is matched by no candidate's \<open>from\<close> pattern,
  \<open>getBranches\<close> returns the empty list and records no call: neither \<^verbatim>\<open>fetch\<close> nor
  \<^verbatim>\<open>ls\<close> runs.
\<close>

theorem getBranches_no_match:
  assumes "\<forall>c\<in>set (candidates config). js_match w (branch context) (cand_from c) = Inr False"
  shows "fst (getBranches w context config s) = Inr []
         \<and> calls (snd (getBranches w context config s)) = calls s"
  using filterE_all_False [of "candidates config" "\<lambda>c. js_match w (branch context) (cand_from c)"] assms
  by (simp add: getBranches_def log_def)

theorem getBranches_no_match_witness:
  "candidates staging_config = [\<lparr>cand_from = ''staging'', cand_to = ''develop''\<rparr>]
   \<and> js_match sample_world (branch sample_context) ''staging'' = Inr False
   \<and> fst (getBranches sample_world sample_context staging_config initial) = Inr []
   \<and> calls (snd (getBranches sample_world sample_context staging_config initial)) = []"
proof -
  have c: "candidates staging_config = [\<lparr>cand_from = ''staging'', cand_to = ''develop''\<rparr>]"
    by (simp add: staging_config_def)
  have m: "js_match sample_world (branch sample_context) ''staging'' = Inr False"
    by code_simp
  from c m have "\<forall>c\<in>set (candidates staging_config).
      js_match sample_world (branch sample_context) (cand_from c) = Inr False"
    by simp
  from getBranches_no_match [OF this, of initial] c m show ?thesis
    by (simp add: initial_def)
qed

lemma records_return: "records Q s (r, s)"
  by (simp add: records_def)

lemma records_andThen:
  assumes "records Q s x" and "\<And>a s1. records Q s1 (f a s1)"
  shows "records Q s (andThen x f)"
proof (cases x)
  case (Pair r s1)
  show ?thesis
  proof (cases r)
    case (Inl e)
    with Pair assms(1) show ?thesis by (auto simp: andThen_def records_def)
  next
    case (Inr a)
    from assms(1) Pair Inr obtain evs1 where
      e1: "calls s1 = calls s @ evs1" "list_all Q evs1" "\<not> list_ex failed evs1"
      by (auto simp: records_def)
    from assms(2) [of s1 a] obtain evs2 where
      e2: "calls (snd (f a s1)) = calls s1 @ evs2" "list_all Q evs2"
          "list_ex failed evs2 \<longrightarrow> (\<exists>e. fst (f a s1) = Inl e)"
      by (auto simp: records_def)
    have "calls (snd (f a s1)) = calls s @ (evs1 @ evs2)" using e1 e2 by simp
    moreover have "list_all Q (evs1 @ evs2)" using e1 e2 by simp
    moreover have "list_ex failed (evs1 @ evs2) \<longrightarrow> (\<exists>e. fst (f a s1) = Inl e)"
      using e1 e2 by simp
    ultimately have "records Q s (f a s1)" unfolding records_def by blast
    with Pair Inr show ?thesis by (simp add: andThen_def)
  qed
qed

lemma records_git:
  assumes "\<And>r. Q (Git args r)" and "calls s0 = calls s"
  shows "records Q s0 (git w args dir vars s)"
  using assms by (auto simp: records_def git_def Let_def split: sum.splits)

lemma try_push_assets_records:
  "records (asset_event config) s (try_push_assets w context config authRemote changesBranch s)"
  unfolding try_push_assets_def Let_def git_checkout_def git_add_def git_commit_def git_push_def
  by (intro records_andThen records_git records_return)
     (auto simp add: asset_event_def log_def intro!: records_git)

lemma try_createPR_effect:
  "try_createPR w context config url src dst s = (r, s') \<Longrightarrow>
     logged s' = logged s \<and>
     ((calls s' = calls s \<and> (\<exists>e. r = Inl e)) \<or>
      (\<exists>body. calls s' = calls s @ [CreatePR (baseUrl config @ apiPathPrefix config)
                                       (platform config) (token config) body r]
              \<and> pr_from body = src \<and> pr_to body = dst))"
  by (auto simp: try_createPR_def andThen_def call_createPR_def Let_def split: sum.splits)

lemma asset_event_not_CreatePR: "asset_event config ev \<Longrightarrow> \<not> is_CreatePR ev"
  by (cases ev) (simp_all add: asset_event_def)

lemma processRequest_effect:
  assumes run: "processRequest w context config s = (r, s')"
  shows "\<exists>gits prs. calls s' = calls s @ gits @ prs
           \<and> list_all (asset_event config) gits \<and> list_all is_CreatePR prs
           \<and> (list_ex failed gits \<longrightarrow>
                 (\<exists>m d. r = Inl (SemanticReleaseError m ''EPUSHASSETS'' d)) \<and> prs = [])
           \<and> (list_ex failed prs \<longrightarrow>
                 r = Inr () \<and> (\<exists>m e l. logged s' = l @ [LogError m e]))"
proof -
  let ?goal = "\<lambda>r s'. \<exists>gits prs. calls s' = calls s @ gits @ prs
           \<and> list_all (asset_event config) gits \<and> list_all is_CreatePR prs
           \<and> (list_ex failed gits \<longrightarrow>
                 (\<exists>m d. r = Inl (SemanticReleaseError m ''EPUSHASSETS'' d)) \<and> prs = [])
           \<and> (list_ex failed prs \<longrightarrow>
                 r = Inr () \<and> (\<exists>m e l. logged s' = l @ [LogError m e]))"
  have unchanged: "?goal r s" for r
    by (rule exI [of _ "[]"], rule exI [of _ "[]"]) simp
  show ?thesis
  proof (cases "length (assets config) = 0")
    case True
    with run unchanged show ?thesis by (simp add: processRequest_def)
  next
    case assets: False
    show ?thesis
    proof (cases "parse w (repositoryUrl config)")
      case (Inl e)
      with run assets unchanged show ?thesis by (auto simp add: processRequest_def)
    next
      case url: (Inr url)
      show ?thesis
      proof (cases "authModificator w url (platform config) (token config)")
        case (Inl e)
        with run assets url unchanged show ?thesis by (auto simp add: processRequest_def)
      next
        case auth: (Inr authRemote)
        define changesBranch where
          "changesBranch = ''release/'' @ branch context @ ''/'' @ version (nextRelease context)"
        obtain r1 s1 where
          push: "try_push_assets w context config authRemote changesBranch s = (r1, s1)"
          by (cases "try_push_assets w context config authRemote changesBranch s")
        from try_push_assets_records [of config s w "context" authRemote changesBranch] push
        obtain gits where
          gits: "calls s1 = calls s @ gits" "list_all (asset_event config) gits"
                "list_ex failed gits \<longrightarrow> (\<exists>e. r1 = Inl e)"
          by (auto simp: records_def)
        show ?thesis
        proof (cases r1)
          case (Inl error)
          with run assets url auth push
          have "r = Inl (SemanticReleaseError
                          (''Failed to add release assets to '' @ changesBranch
                           @ '' branch. Not proceeded with release.'')
                          ''EPUSHASSETS'' (Some (String_of w error)))" and "s' = s1"
            by (auto simp add: processRequest_def changesBranch_def Let_def)
          with gits show ?thesis
            by (intro exI [of _ gits] exI [of _ "[]"]) simp
        next
          case (Inr u)
          with gits have ok: "\<not> list_ex failed gits" by auto
          obtain r2 s2 where
            pr: "try_createPR w context config url changesBranch (branch context) s1 = (r2, s2)"
            by (cases "try_createPR w context config url changesBranch (branch context) s1")
          from run assets url auth push Inr pr
          have res: "r = Inr ()"
            and fin: "s' = (case r2 of
                        Inl error \<Rightarrow>
                          log_error (''Failed to create pull request from ''
                                     @ quoted changesBranch @ '' to ''
                                     @ quoted (branch context) @ ''.'') error s2
                      | Inr u \<Rightarrow> s2)"
            by (auto simp add: processRequest_def changesBranch_def Let_def split: sum.splits)
          from try_createPR_effect [OF pr] obtain prs where
            prs: "calls s2 = calls s1 @ prs" "list_all is_CreatePR prs"
                 "list_ex failed prs \<longrightarrow> (\<exists>e. r2 = Inl e)"
            by (auto split: sum.splits)
          have c: "calls s' = calls s @ gits @ prs"
            using fin gits prs by (simp add: log_error_def split: sum.splits)
          have l: "list_ex failed prs \<longrightarrow> (\<exists>m e l. logged s' = l @ [LogError m e])"
            using fin prs by (auto simp add: log_error_def)
          from c gits prs ok res l show ?thesis
            by (intro exI [of _ gits] exI [of _ prs]) simp
        qed
      qed
    qed
  qed
qed

lemma is_Git_not_CreatePR: "is_Git ev \<Longrightarrow> \<not> is_CreatePR ev"
  by (cases ev) simp_all

lemma new_calls_append: "calls s' = calls s @ evs \<Longrightarrow> new_calls s s' = evs"
  by (simp add: new_calls_def)

text \<open>
  C6: in every run of \<open>processRequest\<close> in which a git invocation fails (the checkout
  of the asset branch, the add, the commit, the push, the checkout back), a
  \<^verbatim>\<open>SemanticReleaseError\<close> with code \<^verbatim>\<open>EPUSHASSETS\<close> is thrown and no pull-request call is
  recorded.
\<close>

theorem processRequest_git_failure:
  assumes "processRequest w context config s = (r, s')"
    and "list_ex (\<lambda>ev. is_Git ev \<and> failed ev) (new_calls s s')"
  shows "(\<exists>m d. r = Inl (SemanticReleaseError m ''EPUSHASSETS'' d))
         \<and> \<not> list_ex is_CreatePR (new_calls s s')"
proof -
  from processRequest_effect [OF assms(1)] obtain gits prs where
    e: "calls s' = calls s @ gits @ prs" "list_all (asset_event config) gits"
       "list_all is_CreatePR prs"
       "list_ex failed gits \<longrightarrow>
          (\<exists>m d. r = Inl (SemanticReleaseError m ''EPUSHASSETS'' d)) \<and> prs = []"
    by blast
  from e(1) have n: "new_calls s s' = gits @ prs" by (rule new_calls_append)
  from e(3) have "\<not> list_ex (\<lambda>ev. is_Git ev \<and> failed ev) prs"
    by (auto simp: list_all_iff list_ex_iff dest: is_Git_not_CreatePR)
  with assms(2) n have "list_ex failed gits"
    by (auto simp: list_ex_iff)
  with e(4) have r: "\<exists>m d. r = Inl (SemanticReleaseError m ''EPUSHASSETS'' d)" and "prs = []"
    by auto
  with n e(2) have "\<not> list_ex is_CreatePR (new_calls s s')"
    by (auto simp: list_all_iff list_ex_iff dest: asset_event_not_CreatePR)
  with r show ?thesis by simp
qed

theorem processRequest_git_failure_witness:
  "list_ex (\<lambda>ev. is_Git ev \<and> failed ev)
     (new_calls initial (snd (processRequest rejecting_world sample_context sample_config initial)))
   \<and> (\<exists>m d. fst (processRequest rejecting_world sample_context sample_config initial)
            = Inl (SemanticReleaseError m ''EPUSHASSETS'' d))
   \<and> \<not> list_ex is_CreatePR
       (new_calls initial (snd (processRequest rejecting_world sample_context sample_config initial)))"
proof -
  have h: "list_ex (\<lambda>ev. is_Git ev \<and> failed ev)
     (new_calls initial (snd (processRequest rejecting_world sample_context sample_config initial)))"
    by code_simp
  from processRequest_git_failure
    [of rejecting_world sample_context sample_config initial
        "fst (processRequest rejecting_world sample_context sample_config initial)"
        "snd (processRequest rejecting_world sample_context sample_config initial)"] h
  show ?thesis by simp
qed

text \<open>
  In dry-run mode every push of \<open>processRequest\<close> carries \<^verbatim>\<open>--dry-run\<close>, and
  \<open>createRequests\<close> records no call at all.
\<close>

lemma processRequest_dry_run_push:
  assumes "processRequest w context config s = (r, s')" and "dryRun config"
    and "ev \<in> set (new_calls s s')" and "is_push ev"
  shows "''--dry-run'' \<in> set (git_args ev)"
proof -
  from processRequest_effect [OF assms(1)] obtain gits prs where
    e: "calls s' = calls s @ gits @ prs" "list_all (asset_event config) gits"
       "list_all is_CreatePR prs"
    by blast
  from e(1) have n: "new_calls s s' = gits @ prs" by (rule new_calls_append)
  from e(3) assms(4) have "ev \<notin> set prs"
    by (cases ev) (auto simp: list_all_iff)
  with n assms(3) have "ev \<in> set gits" by simp
  with e(2) assms(2,4) show ?thesis by (simp add: list_all_iff asset_event_def)
qed

lemma requests_loop_dry_run:
  "dryRun config \<Longrightarrow> requests_loop w context config url branches errors s = (errors', s')
   \<Longrightarrow> errors' = errors \<and> calls s' = calls s"
  by (induction branches arbitrary: s) (simp_all add: log_def)

lemma createRequests_dry_run:
  "dryRun config \<Longrightarrow> calls (snd (createRequests w context config branches s)) = calls s"
  by (auto simp: createRequests_def split: sum.splits prod.splits dest: requests_loop_dry_run)

lemma requests_loop_effect:
  assumes "\<not> dryRun config"
    and "requests_loop w context config url branches errors s = (errors', s')"
  shows "\<exists>new evs. errors' = errors @ new \<and> calls s' = calls s @ evs \<and> logged s' = logged s
           \<and> list_all (has_code ''EPULLREQUEST'') new \<and> list_all is_CreatePR evs
           \<and> map pr_target evs = filter (title_ok w context config) branches
           \<and> length new = length (filter failed evs)
                            + length (filter (\<lambda>b. \<not> title_ok w context config b) branches)"
  using assms(2)
proof (induction branches arbitrary: errors s)
  case Nil
  then show ?case by simp
next
  case (Cons b rest)
  obtain r1 s1 where
    step: "try_createPR w context config url (branch context) b s = (r1, s1)"
    by (cases "try_createPR w context config url (branch context) b s")
  define errors1 where
    "errors1 = (case r1 of
                  Inl prError \<Rightarrow>
                    errors @ [SemanticReleaseError
                                (''Failed to create pull request from '' @ quoted (branch context)
                                 @ '' to '' @ quoted b @ ''.'')
                                ''EPULLREQUEST'' (Some (String_of w prError))]
                | Inr u \<Rightarrow> errors)"
  from Cons.prems assms(1) step
  have rest: "requests_loop w context config url rest errors1 s1 = (errors', s')"
    by (simp add: errors1_def Let_def split: sum.splits)
  from Cons.IH [OF rest] obtain new evs where
    ih: "errors' = errors1 @ new" "calls s' = calls s1 @ evs" "logged s' = logged s1"
        "list_all (has_code ''EPULLREQUEST'') new" "list_all is_CreatePR evs"
        "map pr_target evs = filter (title_ok w context config) rest"
        "length new = length (filter failed evs)
                      + length (filter (\<lambda>b. \<not> title_ok w context config b) rest)"
    by blast
  from step have l1: "logged s1 = logged s"
    by (auto simp: try_createPR_def andThen_def call_createPR_def Let_def split: sum.splits)
  show ?case
  proof (cases "title_ok w context config b")
    case False
    with step have "r1 \<noteq> Inr ()" and c1: "calls s1 = calls s" and "\<exists>e. r1 = Inl e"
      by (auto simp: title_ok_def try_createPR_def andThen_def split: sum.splits)
    then obtain e where e: "r1 = Inl e" by blast
    let ?new = "SemanticReleaseError
                  (''Failed to create pull request from '' @ quoted (branch context)
                   @ '' to '' @ quoted b @ ''.'')
                  ''EPULLREQUEST'' (Some (String_of w e)) # new"
    from ih e c1 l1 False show ?thesis
      by (intro exI [of _ ?new] exI [of _ evs]) (simp add: errors1_def)
  next
    case True
    with step obtain body where
      c1: "calls s1 = calls s @ [CreatePR (baseUrl config @ apiPathPrefix config)
                                    (platform config) (token config) body r1]"
      and t: "pr_to body = b"
      by (auto simp: title_ok_def try_createPR_def andThen_def call_createPR_def Let_def
          split: sum.splits)
    let ?ev = "CreatePR (baseUrl config @ apiPathPrefix config)
                 (platform config) (token config) body r1"
    show ?thesis
    proof (cases r1)
      case (Inl e)
      let ?new = "SemanticReleaseError
                    (''Failed to create pull request from '' @ quoted (branch context)
                     @ '' to '' @ quoted b @ ''.'')
                    ''EPULLREQUEST'' (Some (String_of w e)) # new"
      from ih Inl c1 l1 True t show ?thesis
        by (intro exI [of _ ?new] exI [of _ "?ev # evs"]) (simp add: errors1_def)
    next
      case (Inr u)
      from ih Inr c1 l1 True t show ?thesis
        by (intro exI [of _ new] exI [of _ "?ev # evs"]) (simp add: errors1_def)
    qed
  qed
qed

lemma createRequests_effect:
  assumes "\<not> dryRun config" and "parse w (repositoryUrl config) = Inr url"
    and "createRequests w context config branches s = (r, s')"
  shows "\<exists>errors. r = (if errors = [] then Inr () else Inl (AggregateError errors))
           \<and> list_all (has_code ''EPULLREQUEST'') errors
           \<and> length errors = length (filter failed (new_calls s s'))
                               + length (filter (\<lambda>b. \<not> title_ok w context config b) branches)
           \<and> list_all is_CreatePR (new_calls s s')
           \<and> map pr_target (new_calls s s') = filter (title_ok w context config) branches
           \<and> logged s' = logged s"
proof -
  obtain errors s1 where
    loop: "requests_loop w context config url branches [] s = (errors, s1)"
    by (cases "requests_loop w context config url branches [] s")
  with assms(2,3) have r: "r = (if errors = [] then Inr () else Inl (AggregateError errors))"
    and s: "s' = s1"
    by (auto simp: createRequests_def split: if_splits)
  from requests_loop_effect [OF assms(1) loop] obtain evs where
    e: "calls s1 = calls s @ evs" "logged s1 = logged s"
       "list_all (has_code ''EPULLREQUEST'') errors" "list_all is_CreatePR evs"
       "map pr_target evs = filter (title_ok w context config) branches"
       "length errors = length (filter failed evs)
                      + length (filter (\<lambda>b. \<not> title_ok w context config b) branches)"
    by auto
  from e(1) s have "new_calls s s' = evs" by (simp add: new_calls_def)
  with r s e show ?thesis by (intro exI [of _ errors]) simp
qed

text \<open>
  C2, as amended. When the pull-request call of \<open>processRequest\<close> fails, the error is
  logged and \<open>processRequest\<close> returns normally. In \<open>createRequests\<close>, outside dry-run
  mode and once the repository URL is parsed, each failure (of the call, or of the title
  template) is recorded as one error with code \<^verbatim>\<open>EPULLREQUEST\<close> and nothing is logged;
  the loop goes on, one call per branch whose title renders, in order; after the loop
  \<open>createRequests\<close> throws the \<^verbatim>\<open>AggregateError\<close> of the recorded errors when there is
  one, and returns normally when there is none.
\<close>

theorem request_failures:
  "(processRequest w context config s = (r, s')
      \<longrightarrow> list_ex (\<lambda>ev. is_CreatePR ev \<and> failed ev) (new_calls s s')
      \<longrightarrow> r = Inr () \<and> (\<exists>m e l. logged s' = l @ [LogError m e]))
   \<and> (createRequests w context config branches s = (r', s'')
      \<longrightarrow> \<not> dryRun config
      \<longrightarrow> (\<exists>url. parse w (repositoryUrl config) = Inr url)
      \<longrightarrow> (\<exists>errors. r' = (if errors = [] then Inr () else Inl (AggregateError errors))
             \<and> list_all (has_code ''EPULLREQUEST'') errors
             \<and> length errors = length (filter failed (new_calls s s''))
                                 + length (filter (\<lambda>b. \<not> title_ok w context config b) branches)
             \<and> map pr_target (new_calls s s'') = filter (title_ok w context config) branches
             \<and> logged s'' = logged s))"
proof (intro conjI impI)
  assume run: "processRequest w context config s = (r, s')"
    and f: "list_ex (\<lambda>ev. is_CreatePR ev \<and> failed ev) (new_calls s s')"
  from processRequest_effect [OF run] obtain gits prs where
    e: "calls s' = calls s @ gits @ prs" "list_all (asset_event config) gits"
       "list_ex failed prs \<longrightarrow> r = Inr () \<and> (\<exists>m e l. logged s' = l @ [LogError m e])"
    by blast
  from e(1) have n: "new_calls s s' = gits @ prs" by (rule new_calls_append)
  from e(2) have "\<not> list_ex (\<lambda>ev. is_CreatePR ev \<and> failed ev) gits"
    by (auto simp: list_all_iff list_ex_iff dest: asset_event_not_CreatePR)
  with f n have "list_ex failed prs" by (auto simp: list_ex_iff)
  with e(3) show "r = Inr ()" and "\<exists>m e l. logged s' = l @ [LogError m e]" by simp_all
next
  assume run: "createRequests w context config branches s = (r', s'')"
    and d: "\<not> dryRun config" and "\<exists>url. parse w (repositoryUrl config) = Inr url"
  then obtain url where u: "parse w (repositoryUrl config) = Inr url" by blast
  from createRequests_effect [OF d u run]
  show "\<exists>errors. r' = (if errors = [] then Inr () else Inl (AggregateError errors))
             \<and> list_all (has_code ''EPULLREQUEST'') errors
             \<and> length errors = length (filter failed (new_calls s s''))
                                 + length (filter (\<lambda>b. \<not> title_ok w context config b) branches)
             \<and> map pr_target (new_calls s s'') = filter (title_ok w context config) branches
             \<and> logged s'' = logged s"
    by blast
qed

theorem request_failures_witness:
  "list_ex (\<lambda>ev. is_CreatePR ev \<and> failed ev)
     (new_calls initial (snd (processRequest refusing_world sample_context sample_config initial)))
   \<and> fst (processRequest refusing_world sample_context sample_config initial) = Inr ()
   \<and> \<not> dryRun sample_config
   \<and> (\<exists>url. parse refusing_world (repositoryUrl sample_config) = Inr url)
   \<and> logged (snd (createRequests refusing_world sample_context sample_config
                    [''develop'', ''staging''] initial)) = logged initial"
proof -
  have h1: "list_ex (\<lambda>ev. is_CreatePR ev \<and> failed ev)
     (new_calls initial (snd (processRequest refusing_world sample_context sample_config initial)))"
    by code_simp
  have h2: "\<not> dryRun sample_config"
    by code_simp
  have h3: "\<exists>url. parse refusing_world (repositoryUrl sample_config) = Inr url"
    by (simp add: refusing_world_def sample_world_def)
  from request_failures
    [of refusing_world sample_context sample_config initial
        "fst (processRequest refusing_world sample_context sample_config initial)"
        "snd (processRequest refusing_world sample_context sample_config initial)"
        "[''develop'', ''staging'']"
        "fst (createRequests refusing_world sample_context sample_config
                [''develop'', ''staging''] initial)"
        "snd (createRequests refusing_world sample_context sample_config
                [''develop'', ''staging''] initial)"] h1 h2 h3
  show ?thesis by auto
qed

text \<open>
  The claim C2 as stated fails: when the platform refuses the request for
  \<^verbatim>\<open>develop\<close>, \<open>createRequests\<close> throws and logs nothing.
\<close>

theorem createRequests_throws:
  "createRequests refusing_world sample_context sample_config [''develop''] initial =
     (Inl (AggregateError
             [SemanticReleaseError ''Failed to create pull request from 'main' to 'develop'.''
                ''EPULLREQUEST'' (Some ''Error'')]),
      \<lparr>calls = [CreatePR ''https://example.com'' GITHUB ''some token''
                  \<lparr>pr_body = ''notes'', pr_from = ''main'',
                   pr_name = ''semantic-release-requests'', pr_owner = ''kilianpaquier'',
                   pr_title = ''Release candidate branch ${ from }'', pr_to = ''develop''\<rparr>
                  (Inl (JsError ''Error'' ''422''))],
       logged = []\<rparr>)"
  by code_simp

text \<open>
  C1 at a dry-run configuration with one asset, every collaborator succeeding:
  \<open>processRequest\<close> pushes with \<^verbatim>\<open>--dry-run\<close> and then calls \<^verbatim>\<open>createPR\<close> all the same.
\<close>

theorem processRequest_dry_run_opens_request:
  "dryRun (sample_config\<lparr>dryRun := True\<rparr>)
   \<and> processRequest sample_world sample_context (sample_config\<lparr>dryRun := True\<rparr>) initial =
     (Inr (),
      \<lparr>calls =
         [Git [''checkout'', ''-b'', ''release/main/1.1.0''] (Inr ''''),
          Git [''add'', ''--force'', ''--ignore-errors'', ''CHANGELOG.md''] (Inr ''''),
          Git [''commit'', ''-m'',
               ''chore(release): release changes for v${ nextRelease.version } [skip ci]'']
            (Inr ''''),
          Git [''push'', ''git@github.com:kilianpaquier/semantic-release-requests.git'',
               ''HEAD:release/main/1.1.0'', ''--dry-run''] (Inr ''''),
          Git [''checkout'', ''-b'', ''main''] (Inr ''''),
          CreatePR ''https://example.com'' GITHUB ''some token''
            \<lparr>pr_body = ''notes'', pr_from = ''release/main/1.1.0'',
             pr_name = ''semantic-release-requests'', pr_owner = ''kilianpaquier'',
             pr_title = ''Release candidate branch ${ from }'', pr_to = ''main''\<rparr>
            (Inr ())],
       logged =
         [Log ''Running with --dry-run, push to 'release/main/1.1.0' will not update remote state.'']\<rparr>)"
  by code_simp

lemma filterE_total:
  "\<forall>x\<in>set xs. p x = Inr (q x) \<Longrightarrow> filterE p xs = Inr (filter q xs)"
  by (induction xs) simp_all

lemma findE_total:
  "\<forall>x\<in>set xs. p x = Inr (q x) \<Longrightarrow> findE p xs = Inr (find q xs)"
  by (induction xs) simp_all

lemma js_match_compiled:
  "RegExp w pattern = Inr m \<Longrightarrow> js_match w str pattern = Inr (matches w str pattern)"
  by (simp add: js_match_def matches_def)

lemma find_nonempty:
  "\<forall>t\<in>set ts. t \<noteq> [] \<Longrightarrow>
     truthy (case find q ts of None \<Rightarrow> JUndefined | Some t \<Rightarrow> JStr t) = list_ex q ts"
  by (induction ts) simp_all

lemma matches_target_total:
  assumes "\<forall>c\<in>set appropriates. (\<exists>m. RegExp w (cand_to c) = Inr m) \<and> cand_to c \<noteq> ''''"
  shows "matches_target w appropriates b =
           Inr (list_ex (\<lambda>c. matches w b (cand_to c)) appropriates)"
proof -
  from assms have "\<forall>t\<in>set (map cand_to appropriates). js_match w b t = Inr (matches w b t)"
    by (auto intro: js_match_compiled)
  then have "findE (\<lambda>t. js_match w b t) (map cand_to appropriates)
             = Inr (find (matches w b) (map cand_to appropriates))"
    by (rule findE_total)
  moreover from assms have "\<forall>t\<in>set (map cand_to appropriates). t \<noteq> []" by auto
  then have "truthy (case find (matches w b) (map cand_to appropriates) of
                       None \<Rightarrow> JUndefined | Some t \<Rightarrow> JStr t)
             = list_ex (matches w b) (map cand_to appropriates)"
    by (rule find_nonempty)
  moreover have "list_ex (matches w b) (map cand_to appropriates)
                 = list_ex (\<lambda>c. matches w b (cand_to c)) appropriates"
    by (simp add: list_ex_iff)
  ultimately show ?thesis by (simp add: matches_target_def)
qed

lemma expected_branches_filter:
  "filter (\<lambda>b. list_ex (\<lambda>c. matches w b (cand_to c)) (filter (\<lambda>c. matches w rel (cand_from c)) cands))
     (filter (\<lambda>b. rel \<noteq> b) remote)
   = expected_branches w rel cands remote"
  by (auto simp: expected_branches_def list_ex_iff intro: filter_cong)

text \<open>
  C4, as amended. When every candidate pattern is a regular expression and no \<open>to\<close>
  pattern is empty: if no candidate's \<open>from\<close> pattern matches the release branch,
  \<open>getBranches\<close> returns the empty list; and if \<^verbatim>\<open>fetch\<close> and \<^verbatim>\<open>ls-remote\<close> succeed, it
  returns exactly the listed remote branches, in order, that differ from the release
  branch and match the \<open>to\<close> pattern of a candidate whose \<open>from\<close> pattern matches the
  release branch.
\<close>

theorem getBranches_selects:
  assumes valid: "\<forall>c\<in>set (candidates config).
                    (\<exists>m. RegExp w (cand_from c) = Inr m) \<and> (\<exists>m. RegExp w (cand_to c) = Inr m)
                    \<and> cand_to c \<noteq> ''''"
  shows "(\<not> list_ex (\<lambda>c. matches w (branch context) (cand_from c)) (candidates config)
            \<longrightarrow> fst (getBranches w context config s) = Inr [])
         \<and> (\<forall>out1 out2.
              execaSync w (calls s) [''fetch'', repositoryUrl config] (cwd context) (env context)
                = Inr out1
              \<longrightarrow> execaSync w (calls s @ [Git [''fetch'', repositoryUrl config] (Inr out1)])
                    [''ls-remote'', ''--heads'', repositoryUrl config] (cwd context) (env context)
                  = Inr out2
              \<longrightarrow> fst (getBranches w context config s)
                  = Inr (expected_branches w (branch context) (candidates config)
                           (parse_heads out2)))"
proof -
  let ?rel = "branch context"
  let ?app = "filter (\<lambda>c. matches w ?rel (cand_from c)) (candidates config)"
  from valid have "\<forall>c\<in>set (candidates config).
      js_match w ?rel (cand_from c) = Inr (matches w ?rel (cand_from c))"
    by (auto intro: js_match_compiled)
  then have app: "filterE (\<lambda>c. js_match w ?rel (cand_from c)) (candidates config) = Inr ?app"
    by (rule filterE_total)
  from valid have "\<forall>c\<in>set ?app. (\<exists>m. RegExp w (cand_to c) = Inr m) \<and> cand_to c \<noteq> ''''"
    by simp
  then have target: "matches_target w ?app b
                     = Inr (list_ex (\<lambda>c. matches w b (cand_to c)) ?app)" for b
    by (rule matches_target_total)
  have sel: "filterE (matches_target w ?app) (filter (\<lambda>b. ?rel \<noteq> b) remote)
             = Inr (expected_branches w ?rel (candidates config) remote)" for remote
    using filterE_total [of "filter (\<lambda>b. ?rel \<noteq> b) remote" "matches_target w ?app"
                            "\<lambda>b. list_ex (\<lambda>c. matches w b (cand_to c)) ?app"]
      target expected_branches_filter [of w ?rel "candidates config" remote]
    by simp
  have none: "?app = [] \<Longrightarrow> expected_branches w ?rel (candidates config) remote = []" for remote
    by (auto simp: expected_branches_def list_ex_iff filter_empty_conv)
  show ?thesis
  proof (intro conjI impI allI)
    assume "\<not> list_ex (\<lambda>c. matches w ?rel (cand_from c)) (candidates config)"
    then have "?app = []" by (simp add: list_ex_iff filter_empty_conv)
    with app show "fst (getBranches w context config s) = Inr []"
      by (simp add: getBranches_def)
  next
    fix out1 out2
    assume f: "execaSync w (calls s) [''fetch'', repositoryUrl config] (cwd context) (env context)
                = Inr out1"
      and l: "execaSync w (calls s @ [Git [''fetch'', repositoryUrl config] (Inr out1)])
                    [''ls-remote'', ''--heads'', repositoryUrl config] (cwd context) (env context)
                  = Inr out2"
    show "fst (getBranches w context config s)
            = Inr (expected_branches w ?rel (candidates config) (parse_heads out2))"
    proof (cases "?app = []")
      case True
      with app none [of "parse_heads out2"] show ?thesis
        by (simp add: getBranches_def)
    next
      case False
      with app f l sel [of "parse_heads out2"] show ?thesis
        by (simp add: getBranches_def Let_def git_fetch_def git_ls_def git_def andThen_def log_def)
    qed
  qed
qed

text \<open>
  The claim C4 as stated fails at a candidate with the empty \<open>to\<close> pattern: it matches
  \<^verbatim>\<open>develop\<close>, but \<^verbatim>\<open>find\<close> then returns the empty pattern, which the filter takes
  for false.
\<close>

theorem empty_target_excluded:
  "parse_heads remote_heads = [''main'', ''develop'']
   \<and> expected_branches listing_world (branch sample_context) (candidates empty_target_config)
         [''main'', ''develop''] = [''develop'']
   \<and> fst (getBranches listing_world sample_context empty_target_config initial) = Inr []"
  by code_simp

theorem getBranches_selects_witness:
  "candidates sample_config = [\<lparr>cand_from = ''main'', cand_to = ''develop''\<rparr>]
   \<and> (\<exists>m. RegExp listing_world ''main'' = Inr m)
   \<and> (\<exists>m. RegExp listing_world ''develop'' = Inr m)
   \<and> execaSync listing_world (calls initial) [''fetch'', repositoryUrl sample_config]
        (cwd sample_context) (env sample_context) = Inr ''''
   \<and> execaSync listing_world
        (calls initial @ [Git [''fetch'', repositoryUrl sample_config] (Inr '''')])
        [''ls-remote'', ''--heads'', repositoryUrl sample_config]
        (cwd sample_context) (env sample_context) = Inr remote_heads
   \<and> fst (getBranches listing_world sample_context sample_config initial) = Inr [''develop'']"
proof -
  have valid: "\<forall>c\<in>set (candidates sample_config).
      (\<exists>m. RegExp listing_world (cand_from c) = Inr m)
      \<and> (\<exists>m. RegExp listing_world (cand_to c) = Inr m) \<and> cand_to c \<noteq> ''''"
    by (simp add: sample_config_def listing_world_def sample_world_def)
  have f: "execaSync listing_world (calls initial) [''fetch'', repositoryUrl sample_config]
        (cwd sample_context) (env sample_context) = Inr ''''"
    by (simp add: listing_world_def sample_world_def)
  have l: "execaSync listing_world
        (calls initial @ [Git [''fetch'', repositoryUrl sample_config] (Inr '''')])
        [''ls-remote'', ''--heads'', repositoryUrl sample_config]
        (cwd sample_context) (env sample_context) = Inr remote_heads"
    by (simp add: listing_world_def sample_world_def)
  have e: "expected_branches listing_world (branch sample_context) (candidates sample_config)
             (parse_heads remote_heads) = [''develop'']"
    by code_simp
  from getBranches_selects [OF valid, of sample_context initial] f l e
  have "fst (getBranches listing_world sample_context sample_config initial) = Inr [''develop'']"
    by auto
  moreover have "candidates sample_config = [\<lparr>cand_from = ''main'', cand_to = ''develop''\<rparr>]"
    by (simp add: sample_config_def)
  moreover have "\<exists>m. RegExp listing_world ''main'' = Inr m"
    and "\<exists>m. RegExp listing_world ''develop'' = Inr m"
    by (simp_all add: listing_world_def sample_world_def)
  ultimately show ?thesis using f l by (simp only: simp_thms)
qed

section \<open>Properties of the hooks\<close>

text \<open>
  C7: when the validation of the resolved configuration throws, \<open>prepare\<close> and
  \<open>success\<close> throw that same error and leave the state as it was: no git invocation
  and no pull-request call is recorded, nothing is logged.
\<close>

theorem hooks_validate_first:
  "verifyConfig (JSON_stringify w) (Object_entries (ensureDefault globalConfig (env context)))
     = Inl e
   \<Longrightarrow> prepare w globalConfig context s = (Inl e, s)
       \<and> success w globalConfig context s = (Inl e, s)"
  by (simp add: prepare_def success_def verifyConditions_def)

theorem hooks_validate_first_witness:
  "verifyConfig (JSON_stringify sample_world)
     (Object_entries (ensureDefault invalid_options (env (sample_context\<lparr>env := test_env\<rparr>)))) =
     Inl (AggregateError
            [getConfigError (JSON_stringify sample_world) K_platform
               (JStr ''some invalid value'')])
   \<and> prepare sample_world invalid_options (sample_context\<lparr>env := test_env\<rparr>) initial =
       (Inl (AggregateError
               [getConfigError (JSON_stringify sample_world) K_platform
                  (JStr ''some invalid value'')]), initial)
   \<and> success sample_world invalid_options (sample_context\<lparr>env := test_env\<rparr>) initial =
       (Inl (AggregateError
               [getConfigError (JSON_stringify sample_world) K_platform
                  (JStr ''some invalid value'')]), initial)"
proof -
  have v: "verifyConfig (JSON_stringify sample_world)
     (Object_entries (ensureDefault invalid_options (env (sample_context\<lparr>env := test_env\<rparr>)))) =
     Inl (AggregateError
            [getConfigError (JSON_stringify sample_world) K_platform
               (JStr ''some invalid value'')])"
    by code_simp
  with hooks_validate_first
    [of sample_world invalid_options "sample_context\<lparr>env := test_env\<rparr>" _ initial]
  show ?thesis
    by (simp only:)
qed

text \<open>
  With a known platform the same options pass the validation, and the hooks go on to
  record calls.
\<close>

lemma hooks_record_calls_when_valid:
  "length (calls (snd (prepare sample_world (invalid_options(K_platform := JStr ''github''))
                         (sample_context\<lparr>env := test_env\<rparr>) initial))) = 6
   \<and> length (calls (snd (success listing_world (invalid_options(K_platform := JStr ''github''))
                           (sample_context\<lparr>env := test_env\<rparr>) initial))) = 3"
  by code_simp

lemma collect_errors_length:
  "collect_errors stringify obj agg = Inr errs \<Longrightarrow> length agg \<le> length errs"
proof (induction obj arbitrary: agg)
  case Nil
  then show ?case by simp
next
  case (Cons entry obj)
  then show ?case
    by (cases entry) (fastforce split: option.splits sum.splits if_splits)
qed

lemma collect_errors_none:
  "collect_errors stringify (object_of kvs) agg = Inr [] \<Longrightarrow> (key, v) \<in> set kvs
   \<Longrightarrow> passes (validators key) v = Inr True"
proof (induction kvs arbitrary: agg)
  case Nil
  then show ?case by simp
next
  case (Cons kv kvs)
  obtain key' v' where kv: "kv = (key', v')" by (cases kv)
  show ?case
  proof (cases "passes (validators key') v'")
    case (Inl e)
    with Cons.prems(1) kv show ?thesis
      by (simp add: object_of_def key_of_key_name del: validators.simps)
  next
    case (Inr ok)
    show ?thesis
    proof (cases ok)
      case False
      with Inr Cons.prems(1) kv
      have "collect_errors stringify (object_of kvs)
              (agg @ [getConfigError stringify key' v']) = Inr []"
        by (simp add: object_of_def key_of_key_name del: validators.simps)
      from collect_errors_length [OF this] show ?thesis by simp
    next
      case True
      with Inr Cons.prems(1) kv have "collect_errors stringify (object_of kvs) agg = Inr []"
        by (simp add: object_of_def key_of_key_name del: validators.simps)
      with Cons.IH Cons.prems(2) Inr True kv show ?thesis by auto
    qed
  qed
qed

lemma filterE_all_kept:
  "filterE p xs = Inr ys \<Longrightarrow> length ys \<le> length xs
     \<and> (length ys = length xs \<longrightarrow> (\<forall>x\<in>set xs. p x = Inr True))"
proof (induction xs arbitrary: ys)
  case Nil
  then show ?case by simp
next
  case (Cons x xs)
  then show ?case
    by (fastforce split: sum.splits if_splits)
qed

lemma isString_JStr: "isString v \<Longrightarrow> \<exists>s. v = JStr s"
  by (cases v) simp_all

lemma validCandidate_typed: "validCandidate x = Inr True \<Longrightarrow> the_candidate x \<noteq> None"
proof (cases x)
  case (JObj kvs)
  assume "validCandidate x = Inr True"
  with JObj show ?thesis
    by (cases "map_of kvs ''from''"; cases "map_of kvs ''to''")
       (auto simp: validCandidate_def stringNotEmpty_def dest!: isString_JStr split: if_splits)
qed (simp_all add: validCandidate_def)

lemma the_list_defined: "\<forall>x\<in>set xs. f x \<noteq> None \<Longrightarrow> the_list f xs \<noteq> None"
  by (induction xs) auto

lemma passes_bool_typed:
  "passes [\<lambda>v. Inr (isBoolean v)] v = Inr True \<Longrightarrow> the_bool v \<noteq> None"
  by (cases v) (simp_all split: if_splits)

lemma passes_string_typed:
  "passes ((\<lambda>v. Inr (isString v)) # rest) v = Inr True \<Longrightarrow> the_string v \<noteq> None"
  by (cases v) (simp_all split: if_splits)

lemma nonempty_string_typed: "nonempty_string v \<Longrightarrow> \<exists>s. the_string v = Some s"
  by (cases v) simp_all

lemma passes_assets_typed:
  "passes (validators K_assets) v = Inr True \<Longrightarrow> the_array the_string v \<noteq> None"
proof (cases v)
  case (JArr xs)
  assume "passes (validators K_assets) v = Inr True"
  with JArr have "list_all nonempty_string xs"
    by (simp add: validStringArray_array del: validStringArray.simps split: if_splits)
  then have "\<forall>x\<in>set xs. the_string x \<noteq> None"
    by (auto simp: list_all_iff dest!: nonempty_string_typed)
  with JArr show ?thesis by (simp add: the_list_defined)
qed simp_all

lemma passes_candidates_typed:
  "passes (validators K_candidates) v = Inr True \<Longrightarrow> the_array the_candidate v \<noteq> None"
proof (cases v)
  case (JArr xs)
  assume "passes (validators K_candidates) v = Inr True"
  with JArr obtain kept where "filterE validCandidate xs = Inr kept" "length kept = length xs"
    by (auto split: sum.splits if_splits)
  with filterE_all_kept [of validCandidate xs kept]
  have "\<forall>x\<in>set xs. the_candidate x \<noteq> None"
    by (auto dest: validCandidate_typed)
  with JArr show ?thesis by (simp add: the_list_defined)
qed simp_all

lemma passes_platform_typed:
  "passes (validators K_platform) v = Inr True \<Longrightarrow> the_platform v \<noteq> None"
  by (cases v) (auto simp: validPlatform_string the_platform_def Platform_values_def split: if_splits)

text \<open>
  Every result of \<open>ensureDefault\<close> that \<open>verifyConfig\<close> accepts has its fields at the
  declared types: the hooks never reach the \<open>ill_typed\<close> branch after a successful validation.
\<close>

lemma verifyConfig_typed:
  assumes "verifyConfig stringify (Object_entries c) = Inr ()"
  shows "typedConfig c \<noteq> None"
proof -
  from assms
  have "collect_errors stringify (object_of (map (\<lambda>key. (key, c key)) RequestsConfig_keys)) []
        = Inr []"
    by (auto simp: verifyConfig_def Object_entries_object_of split: sum.splits if_splits)
  then have ok: "passes (validators k) (c k) = Inr True" for k
    by (rule collect_errors_none [where v = "c k"]) (cases k; simp add: RequestsConfig_keys_def)
  from ok [of K_debug] have "the_bool (c K_debug) \<noteq> None"
    by (simp add: passes_bool_typed del: passes.simps)
  moreover from ok [of K_dryRun] have "the_bool (c K_dryRun) \<noteq> None"
    by (simp add: passes_bool_typed del: passes.simps)
  moreover from ok [of K_repositoryUrl] have "the_string (c K_repositoryUrl) \<noteq> None"
    by (simp add: passes_string_typed del: passes.simps)
  moreover from ok [of K_apiPathPrefix] have "the_string (c K_apiPathPrefix) \<noteq> None"
    by (simp add: passes_string_typed del: passes.simps)
  moreover from ok [of K_baseUrl] have "the_string (c K_baseUrl) \<noteq> None"
    by (simp add: passes_string_typed del: passes.simps)
  moreover from ok [of K_platform] have "the_platform (c K_platform) \<noteq> None"
    by (rule passes_platform_typed)
  moreover from ok [of K_token] have "the_string (c K_token) \<noteq> None"
    by (simp add: passes_string_typed del: passes.simps)
  moreover from ok [of K_candidates] have "the_array the_candidate (c K_candidates) \<noteq> None"
    by (rule passes_candidates_typed)
  moreover from ok [of K_title] have "the_string (c K_title) \<noteq> None"
    by (simp add: passes_string_typed del: passes.simps)
  moreover from ok [of K_commit] have "the_string (c K_commit) \<noteq> None"
    by (simp add: passes_string_typed del: passes.simps)
  moreover from ok [of K_assets] have "the_array the_string (c K_assets) \<noteq> None"
    by (rule passes_assets_typed)
  ultimately show ?thesis
    by (auto simp: typedConfig_def)
qed

text \<open>
  Once the validation has passed, \<open>prepare\<close> returns normally whatever
  \<open>processRequest\<close> does: the promise of \<open>processRequest\<close> is not awaited.
\<close>

lemma prepare_discards_outcome:
  assumes "verifyConfig (JSON_stringify w)
             (Object_entries (ensureDefault globalConfig (env context))) = Inr ()"
  shows "fst (prepare w globalConfig context s) = Inr ()"
proof -
  from verifyConfig_typed [OF assms] obtain c where
    "typedConfig (ensureDefault globalConfig (env context)) = Some c"
    by blast
  with assms show ?thesis
    by (simp add: prepare_def verifyConditions_def split: prod.splits)
qed

text \<open>An error thrown by \<open>createRequests\<close> leaves \<open>success\<close> as an error, as it is or wrapped.\<close>

lemma success_throws:
  assumes "verifyConditions w globalConfig context = Inr config"
    and "typedConfig config = Some c"
    and "getBranches w context c s = (Inr branches, s1)"
    and "createRequests w context c branches s1 = (Inl e, s2)"
  shows "\<exists>e'. success w globalConfig context s = (Inl e', s2)"
  using assms by (simp add: success_def andThen_def)

text \<open>In a dry run the \<open>prepare\<close> hook records a pull-request call.\<close>

lemma prepare_dry_run_opens_request:
  "ensureDefault dry_run_options test_env K_dryRun = JBool True
   \<and> list_ex is_CreatePR
       (calls (snd (prepare sample_world dry_run_options
                      (sample_context\<lparr>env := test_env\<rparr>) initial)))"
  by code_simp

end
